theory Spec2Isabelle
  imports Complex_Main "HOL-Library.Multiset" "HOL-Library.Sublist"
begin

section \<open>Data model\<close>

text \<open>
  The two dataclasses of \<^verbatim>\<open>funding_rate_bot.py\<close>. Python floats are read as
  real numbers; a \<^verbatim>\<open>datetime\<close> is an instant counted in microseconds, and an
  \<^verbatim>\<open>Optional\<close> field is an \<open>option\<close>. Both dataclasses have a field
  \<^verbatim>\<open>symbol\<close> and a field \<^verbatim>\<open>next_funding_time\<close>; those of
  \<^verbatim>\<open>ArbitrageOpportunity\<close> carry the prefix \<open>op_\<close> here.
\<close>

type_synonym datetime = int

record FundingRateData =
  exchange :: string
  symbol :: string
  rate :: real
  timestamp :: datetime
  next_funding_time :: "datetime option"
  mark_price :: "real option"

record ArbitrageOpportunity =
  long_exchange :: string
  short_exchange :: string
  op_symbol :: string
  long_rate :: real
  short_rate :: real
  rate_difference :: real
  potential_profit_8h :: real
  estimated_fees :: real
  net_profit_8h :: real
  op_next_funding_time :: "datetime option"

section \<open>The collector's arithmetic\<close>

text \<open>\<^verbatim>\<open>d.get(k, default)\<close> on a Python dict.\<close>

definition dict_get :: "('k \<rightharpoonup> 'v) \<Rightarrow> 'k \<Rightarrow> 'v \<Rightarrow> 'v" where
  "dict_get d k dflt = (case d k of None \<Rightarrow> dflt | Some v \<Rightarrow> v)"

text \<open>
  \<^verbatim>\<open>a or b\<close> on two optional datetimes: a datetime object is always truthy, so the
  first operand is returned unless it is \<^verbatim>\<open>None\<close>.
\<close>

definition py_or :: "'a option \<Rightarrow> 'a option \<Rightarrow> 'a option" where
  "py_or a b = (case a of None \<Rightarrow> b | Some t \<Rightarrow> Some t)"

text \<open>
  \<^verbatim>\<open>FundingRateCollector._calculate_arbitrage_profit\<close>; the two tables are the
  collector's \<^verbatim>\<open>fee_structure\<close> and \<^verbatim>\<open>slippage_estimates\<close>.
\<close>

definition calculate_arbitrage_profit ::
  "(string \<rightharpoonup> real) \<Rightarrow> (string \<rightharpoonup> real) \<Rightarrow> FundingRateData \<Rightarrow> FundingRateData \<Rightarrow> string
    \<Rightarrow> ArbitrageOpportunity" where
  "calculate_arbitrage_profit fee_structure slippage_estimates long_r short_r symb =
    (let rate_diff = rate long_r - rate short_r;
         long_fees = dict_get fee_structure (exchange long_r) 0.1 / 100;
         short_fees = dict_get fee_structure (exchange short_r) 0.1 / 100;
         slippage = dict_get slippage_estimates symb 0.05 / 100;
         total_fees = long_fees + short_fees + (2 * slippage) + 0.002;
         gross_profit_8h = rate_diff;
         net = gross_profit_8h - total_fees
     in \<lparr> long_exchange = exchange long_r,
          short_exchange = exchange short_r,
          op_symbol = symb,
          long_rate = rate long_r,
          short_rate = rate short_r,
          rate_difference = rate_diff,
          potential_profit_8h = gross_profit_8h,
          estimated_fees = total_fees,
          net_profit_8h = net,
          op_next_funding_time = py_or (next_funding_time long_r) (next_funding_time short_r) \<rparr>)"

section \<open>Searching for opportunities\<close>

text \<open>
  The dict \<^verbatim>\<open>symbol_groups\<close> keeps its keys in insertion order, so it is an
  association list. One iteration of the grouping loop creates the key at the end when it
  is new and appends the record to the key's list.
\<close>

fun group_append ::
  "(string \<times> FundingRateData list) list \<Rightarrow> FundingRateData \<Rightarrow> (string \<times> FundingRateData list) list" where
  "group_append [] d = [(symbol d, [d])]"
| "group_append ((k, ds) # gs) d =
     (if k = symbol d then (k, ds @ [d]) # gs else (k, ds) # group_append gs d)"

definition symbol_groups :: "FundingRateData list \<Rightarrow> (string \<times> FundingRateData list) list" where
  "symbol_groups funding_data = foldl group_append [] funding_data"

text \<open>The assignment of the two legs: the first record is long only when its rate is strictly larger.\<close>

definition assign_legs :: "FundingRateData \<Rightarrow> FundingRateData \<Rightarrow> FundingRateData \<times> FundingRateData" where
  "assign_legs rate1 rate2 = (if rate rate1 > rate rate2 then (rate1, rate2) else (rate2, rate1))"

text \<open>The body of the inner loop: what one pair appends to \<^verbatim>\<open>opportunities\<close>.\<close>

definition pair_opportunity ::
  "(string \<rightharpoonup> real) \<Rightarrow> (string \<rightharpoonup> real) \<Rightarrow> string \<Rightarrow> FundingRateData \<Rightarrow> FundingRateData
    \<Rightarrow> ArbitrageOpportunity list" where
  "pair_opportunity fee_structure slippage_estimates symb rate1 rate2 =
    (let (long_r, short_r) = assign_legs rate1 rate2;
         rate_diff = rate long_r - rate short_r
     in if rate_diff > 0.0001
        then (let opportunity = calculate_arbitrage_profit fee_structure slippage_estimates long_r short_r symb
              in if net_profit_8h opportunity > 0 then [opportunity] else [])
        else [])"

text \<open>The two index loops over one group, \<open>i\<close> from 0 and \<open>j\<close> from \<open>i + 1\<close>.\<close>

definition group_opportunities ::
  "(string \<rightharpoonup> real) \<Rightarrow> (string \<rightharpoonup> real) \<Rightarrow> string \<Rightarrow> FundingRateData list
    \<Rightarrow> ArbitrageOpportunity list" where
  "group_opportunities fee_structure slippage_estimates symb rates =
    (if length rates < 2 then []
     else concat (map (\<lambda>i. concat (map (\<lambda>j.
            pair_opportunity fee_structure slippage_estimates symb (rates ! i) (rates ! j))
              [i + 1 ..< length rates])) [0 ..< length rates]))"

text \<open>The list \<^verbatim>\<open>opportunities\<close> before it is sorted.\<close>

definition collected_opportunities ::
  "(string \<rightharpoonup> real) \<Rightarrow> (string \<rightharpoonup> real) \<Rightarrow> FundingRateData list \<Rightarrow> ArbitrageOpportunity list" where
  "collected_opportunities fee_structure slippage_estimates funding_data =
    concat (map (\<lambda>(symb, rates). group_opportunities fee_structure slippage_estimates symb rates)
      (symbol_groups funding_data))"

text \<open>
  \<^verbatim>\<open>sorted(xs, key=..., reverse=True)\<close>: Python's sort is stable and with
  \<^verbatim>\<open>reverse=True\<close> elements of equal key keep their original order, which is the
  stable ascending sort on the negated key.
\<close>

definition sorted_reverse :: "('a \<Rightarrow> real) \<Rightarrow> 'a list \<Rightarrow> 'a list" where
  "sorted_reverse key xs = sort_key (\<lambda>x. - key x) xs"

definition find_arbitrage_opportunities ::
  "(string \<rightharpoonup> real) \<Rightarrow> (string \<rightharpoonup> real) \<Rightarrow> FundingRateData list \<Rightarrow> ArbitrageOpportunity list" where
  "find_arbitrage_opportunities fee_structure slippage_estimates funding_data =
    sorted_reverse net_profit_8h (collected_opportunities fee_structure slippage_estimates funding_data)"

section \<open>Specification-side notions\<close>

text \<open>
  The keys of a list in the order of their first occurrence, the records of one symbol in
  input order, and the relation ``\<open>a\<close> stands at a smaller index than \<open>b\<close>''. They are
  used to state what the grouping and the index loops compute.
\<close>

definition first_occurrences :: "'a list \<Rightarrow> 'a list" where
  "first_occurrences xs = rev (remdups (rev xs))"

definition records_of :: "string \<Rightarrow> FundingRateData list \<Rightarrow> FundingRateData list" where
  "records_of s funding_data = filter (\<lambda>d. symbol d = s) funding_data"

definition precedes_in :: "'a list \<Rightarrow> 'a \<Rightarrow> 'a \<Rightarrow> bool" where
  "precedes_in xs a b = (\<exists>i j. i < j \<and> j < length xs \<and> xs ! i = a \<and> xs ! j = b)"

text \<open>
  The enumeration the specification describes: symbols in order of first occurrence, and for
  each symbol the pairs of its records with the first component at the smaller index, in
  lexicographic order of the two indices.
\<close>

fun ordered_pairs :: "'a list \<Rightarrow> ('a \<times> 'a) list" where
  "ordered_pairs [] = []"
| "ordered_pairs (x # xs) = map (Pair x) xs @ ordered_pairs xs"

definition enumerated_opportunities_spec ::
  "(string \<rightharpoonup> real) \<Rightarrow> (string \<rightharpoonup> real) \<Rightarrow> FundingRateData list \<Rightarrow> ArbitrageOpportunity list" where
  "enumerated_opportunities_spec fee_structure slippage_estimates funding_data =
    concat (map (\<lambda>s. concat (map (\<lambda>(a, b). pair_opportunity fee_structure slippage_estimates s a b)
                                (ordered_pairs (records_of s funding_data))))
      (first_occurrences (map symbol funding_data)))"


section \<open>A worked example\<close>

text \<open>
  The tables and records of the specification's own example: two exchanges charging 0.08
  percent, 0.01 percent slippage on BTC.
\<close>

definition example_fees :: "string \<rightharpoonup> real" where
  "example_fees = [''ExchangeA'' \<mapsto> 0.08, ''ExchangeB'' \<mapsto> 0.08]"

definition example_slippage :: "string \<rightharpoonup> real" where
  "example_slippage = [''BTC'' \<mapsto> 0.01]"

definition example_record :: "string \<Rightarrow> string \<Rightarrow> real \<Rightarrow> FundingRateData" where
  "example_record ex s r =
     \<lparr> exchange = ex, symbol = s, rate = r, timestamp = 0, next_funding_time = None, mark_price = None \<rparr>"

definition example_opportunity :: ArbitrageOpportunity where
  "example_opportunity =
     \<lparr> long_exchange = ''ExchangeA'', short_exchange = ''ExchangeB'', op_symbol = ''BTC'',
       long_rate = 0.0060, short_rate = 0.0002, rate_difference = 0.0058,
       potential_profit_8h = 0.0058, estimated_fees = 0.0038, net_profit_8h = 0.0020,
       op_next_funding_time = None \<rparr>"

definition example_data :: "FundingRateData list" where
  "example_data =
     [example_record ''ExchangeB'' ''BTC'' 0.0002, example_record ''ExchangeA'' ''ETH'' 0.5,
      example_record ''ExchangeA'' ''BTC'' 0.0060]"

section \<open>Responses, exceptions and the outside world\<close>

text \<open>
  What \<^verbatim>\<open>response.json()\<close> can return: Python's \<^verbatim>\<open>None\<close>, booleans,
  integers (\<open>JInt\<close>, unbounded), floats (\<open>JNum\<close>), strings, lists and dicts (in
  insertion order). The exceptions raised by the
  operations the adapters apply to such values are values of \<open>pyerror\<close>; every one of
  them is an \<^verbatim>\<open>Exception\<close>.
\<close>

datatype json = JNull | JBool bool | JInt int | JNum real | JStr string | JArr "json list"
  | JObj "(string \<times> json) list"

datatype pyerror = TypeError | AttributeError | KeyError | IndexError | ValueError
  | OverflowError | OSError

text \<open>
  The outcome of \<^verbatim>\<open>session.get\<close>: the call raises (no connection, timeout), or there
  is a response with a status code whose body parses as JSON or does not.
\<close>

datatype http_result = ConnectionFailed | Response nat "json option"

text \<open>
  The environment: the answer to the \<open>n\<close>-th request (which may depend on the endpoint and
  the query parameters), the \<open>n\<close>-th reading of \<^verbatim>\<open>datetime.now()\<close>, the library's
  parsing of numerals in strings, \<^verbatim>\<open>datetime.fromtimestamp\<close>, \<^verbatim>\<open>strftime\<close>
  and \<^verbatim>\<open>isoformat\<close>.
\<close>

record env =
  http :: "nat \<Rightarrow> string \<Rightarrow> (string \<times> string) list \<Rightarrow> http_result"
  now :: "nat \<Rightarrow> datetime"
  parse_float :: "string \<Rightarrow> real option"
  parse_int :: "string \<Rightarrow> int option"
  fromtimestamp :: "real \<Rightarrow> pyerror + datetime"
  strftime :: "datetime \<Rightarrow> string \<Rightarrow> string"
  isoformat :: "datetime \<Rightarrow> string"

record world =
  requests :: nat
  clock_reads :: nat

definition and_then :: "pyerror + 'a \<Rightarrow> ('a \<Rightarrow> pyerror + 'b) \<Rightarrow> pyerror + 'b" where
  "and_then m f = (case m of Inl err \<Rightarrow> Inl err | Inr x \<Rightarrow> f x)"

text \<open>Truth value of an object, as \<^verbatim>\<open>if data\<close> and \<^verbatim>\<open>not data\<close> test it.\<close>

fun truthy :: "json \<Rightarrow> bool" where
  "truthy JNull = False"
| "truthy (JBool b) = b"
| "truthy (JInt n) = (n \<noteq> 0)"
| "truthy (JNum r) = (r \<noteq> 0)"
| "truthy (JStr s) = (s \<noteq> [])"
| "truthy (JArr xs) = (xs \<noteq> [])"
| "truthy (JObj kvs) = (kvs \<noteq> [])"

text \<open>\<^verbatim>\<open>key in x\<close> for a string key.\<close>

fun py_contains :: "string \<Rightarrow> json \<Rightarrow> pyerror + bool" where
  "py_contains k (JObj kvs) = Inr (k \<in> set (map fst kvs))"
| "py_contains k (JArr xs) = Inr (JStr k \<in> set xs)"
| "py_contains k (JStr s) = Inr (sublist k s)"
| "py_contains k JNull = Inl TypeError"
| "py_contains k (JBool b) = Inl TypeError"
| "py_contains k (JInt n) = Inl TypeError"
| "py_contains k (JNum r) = Inl TypeError"

text \<open>\<^verbatim>\<open>x[key]\<close> for a string key.\<close>

fun py_subscript :: "json \<Rightarrow> string \<Rightarrow> pyerror + json" where
  "py_subscript (JObj kvs) k = (case map_of kvs k of None \<Rightarrow> Inl KeyError | Some v \<Rightarrow> Inr v)"
| "py_subscript (JArr xs) k = Inl TypeError"
| "py_subscript (JStr s) k = Inl TypeError"
| "py_subscript JNull k = Inl TypeError"
| "py_subscript (JBool b) k = Inl TypeError"
| "py_subscript (JInt n) k = Inl TypeError"
| "py_subscript (JNum r) k = Inl TypeError"

text \<open>\<^verbatim>\<open>x[0]\<close>; the keys of a parsed JSON object are strings, so 0 is never a key.\<close>

fun py_index0 :: "json \<Rightarrow> pyerror + json" where
  "py_index0 (JArr xs) = (case xs of [] \<Rightarrow> Inl IndexError | x # _ \<Rightarrow> Inr x)"
| "py_index0 (JStr s) = (case s of [] \<Rightarrow> Inl IndexError | c # _ \<Rightarrow> Inr (JStr [c]))"
| "py_index0 (JObj kvs) = Inl KeyError"
| "py_index0 JNull = Inl TypeError"
| "py_index0 (JBool b) = Inl TypeError"
| "py_index0 (JInt n) = Inl TypeError"
| "py_index0 (JNum r) = Inl TypeError"

text \<open>\<^verbatim>\<open>x.get(key, default)\<close>: only a dict has the method.\<close>

fun py_get :: "json \<Rightarrow> string \<Rightarrow> json \<Rightarrow> pyerror + json" where
  "py_get (JObj kvs) k dflt = Inr (case map_of kvs k of None \<Rightarrow> dflt | Some v \<Rightarrow> v)"
| "py_get (JArr xs) k dflt = Inl AttributeError"
| "py_get (JStr s) k dflt = Inl AttributeError"
| "py_get JNull k dflt = Inl AttributeError"
| "py_get (JBool b) k dflt = Inl AttributeError"
| "py_get (JInt n) k dflt = Inl AttributeError"
| "py_get (JNum r) k dflt = Inl AttributeError"

text \<open>The items a \<^verbatim>\<open>for\<close> loop visits: a dict yields its keys, a string its characters.\<close>

fun py_iter :: "json \<Rightarrow> pyerror + json list" where
  "py_iter (JArr xs) = Inr xs"
| "py_iter (JObj kvs) = Inr (map (\<lambda>kv. JStr (fst kv)) kvs)"
| "py_iter (JStr s) = Inr (map (\<lambda>c. JStr [c]) s)"
| "py_iter JNull = Inl TypeError"
| "py_iter (JBool b) = Inl TypeError"
| "py_iter (JInt n) = Inl TypeError"
| "py_iter (JNum r) = Inl TypeError"

text \<open>
  An integer converts to a float when it rounds (to nearest, ties to even) to a finite
  double, that is when its magnitude is below \<open>2^1024 - 2^970\<close>, half an ulp above the
  largest double; otherwise the conversion raises \<^verbatim>\<open>OverflowError\<close>. The same holds
  for the quotient of the true division \<^verbatim>\<open>n / 1000\<close> of an integer.
\<close>

definition float_overflow_bound :: int where
  "float_overflow_bound = 2 ^ 1024 - 2 ^ 970"

definition int_to_float :: "int \<Rightarrow> pyerror + real" where
  "int_to_float n = (if \<bar>n\<bar> < float_overflow_bound then Inr (real_of_int n) else Inl OverflowError)"

definition div_1000 :: "int \<Rightarrow> pyerror + real" where
  "div_1000 n =
    (if \<bar>n\<bar> < 1000 * float_overflow_bound then Inr (real_of_int n / 1000) else Inl OverflowError)"

text \<open>\<^verbatim>\<open>float(x)\<close> and \<^verbatim>\<open>int(x)\<close>; \<^verbatim>\<open>int\<close> truncates towards zero.\<close>

fun py_float :: "env \<Rightarrow> json \<Rightarrow> pyerror + real" where
  "py_float e (JNum r) = Inr r"
| "py_float e (JInt n) = int_to_float n"
| "py_float e (JBool b) = Inr (if b then 1 else 0)"
| "py_float e (JStr s) = (case parse_float e s of None \<Rightarrow> Inl ValueError | Some r \<Rightarrow> Inr r)"
| "py_float e JNull = Inl TypeError"
| "py_float e (JArr xs) = Inl TypeError"
| "py_float e (JObj kvs) = Inl TypeError"

fun py_int :: "env \<Rightarrow> json \<Rightarrow> pyerror + int" where
  "py_int e (JNum r) = Inr (if 0 \<le> r then \<lfloor>r\<rfloor> else \<lceil>r\<rceil>)"
| "py_int e (JInt n) = Inr n"
| "py_int e (JBool b) = Inr (if b then 1 else 0)"
| "py_int e (JStr s) = (case parse_int e s of None \<Rightarrow> Inl ValueError | Some n \<Rightarrow> Inr n)"
| "py_int e JNull = Inl TypeError"
| "py_int e (JArr xs) = Inl TypeError"
| "py_int e (JObj kvs) = Inl TypeError"

fun str_of :: "json \<Rightarrow> string" where
  "str_of (JStr s) = s"
| "str_of _ = []"

section \<open>The exchange adapters\<close>

text \<open>
  \<^verbatim>\<open>ExchangeAPI._make_request\<close>: any exception of the transport or of the JSON parser
  and any status other than 200 give \<^verbatim>\<open>None\<close>. The rate limiter only sleeps.
\<close>

definition make_request :: "env \<Rightarrow> string \<Rightarrow> (string \<times> string) list \<Rightarrow> world \<Rightarrow> json \<times> world" where
  "make_request e endpoint params w =
    (let w' = w\<lparr>requests := requests w + 1\<rparr>
     in case http e (requests w) endpoint params of
          ConnectionFailed \<Rightarrow> (JNull, w')
        | Response status_code body \<Rightarrow>
            if status_code = 200
            then (case body of None \<Rightarrow> (JNull, w') | Some j \<Rightarrow> (j, w'))
            else (JNull, w'))"

definition datetime_now :: "env \<Rightarrow> world \<Rightarrow> datetime \<times> world" where
  "datetime_now e w = (now e (clock_reads w), w\<lparr>clock_reads := clock_reads w + 1\<rparr>)"

definition binance_symbol_mapping :: "(string \<times> string) list" where
  "binance_symbol_mapping =
    [(''BTC'', ''BTCUSDT''), (''ETH'', ''ETHUSDT''), (''SOL'', ''SOLUSDT''), (''ADA'', ''ADAUSDT''),
     (''MATIC'', ''MATICUSDT''), (''DOT'', ''DOTUSDT''), (''AVAX'', ''AVAXUSDT'')]"

definition bybit_symbol_mapping :: "(string \<times> string) list" where
  "bybit_symbol_mapping =
    [(''BTC'', ''BTCUSDT''), (''ETH'', ''ETHUSDT''), (''SOL'', ''SOLUSDT''), (''ADA'', ''ADAUSDT''),
     (''MATIC'', ''MATICUSDT''), (''DOT'', ''DOTUSDT''), (''AVAX'', ''AVAXUSDT'')]"

definition okx_symbol_mapping :: "(string \<times> string) list" where
  "okx_symbol_mapping =
    [(''BTC'', ''BTC-USDT-SWAP''), (''ETH'', ''ETH-USDT-SWAP''), (''SOL'', ''SOL-USDT-SWAP''),
     (''ADA'', ''ADA-USDT-SWAP''), (''MATIC'', ''MATIC-USDT-SWAP''), (''DOT'', ''DOT-USDT-SWAP''),
     (''AVAX'', ''AVAX-USDT-SWAP'')]"

definition bitget_symbol_mapping :: "(string \<times> string) list" where
  "bitget_symbol_mapping =
    [(''BTC'', ''BTCUSDT_UMCBL''), (''ETH'', ''ETHUSDT_UMCBL''), (''SOL'', ''SOLUSDT_UMCBL''),
     (''ADA'', ''ADAUSDT_UMCBL''), (''MATIC'', ''MATICUSDT_UMCBL''), (''DOT'', ''DOTUSDT_UMCBL''),
     (''AVAX'', ''AVAXUSDT_UMCBL'')]"

definition kucoin_symbol_mapping :: "(string \<times> string) list" where
  "kucoin_symbol_mapping =
    [(''BTC'', ''XBTUSDTM''), (''ETH'', ''ETHUSDTM''), (''SOL'', ''SOLUSDTM''), (''ADA'', ''ADAUSDTM''),
     (''MATIC'', ''MATICUSDTM''), (''DOT'', ''DOTUSDTM''), (''AVAX'', ''AVAXUSDTM'')]"

text \<open>
  The search \<^verbatim>\<open>for base, full in self.symbol_mapping.items(): if symbol_name == full\<close>,
  which stops at the first match.
\<close>

fun find_base :: "(string \<times> string) list \<Rightarrow> json \<Rightarrow> string option" where
  "find_base [] symbol_name = None"
| "find_base ((base, full) # rest) symbol_name =
     (if symbol_name = JStr full then Some base else find_base rest symbol_name)"

text \<open>
  The block \<^verbatim>\<open>if 'nextFundingTime' in item: ...\<close> of the Binance, Bybit and OKX
  adapters.
\<close>

definition next_funding_time_of :: "env \<Rightarrow> json \<Rightarrow> pyerror + datetime option" where
  "next_funding_time_of e item =
    and_then (py_contains ''nextFundingTime'' item) (\<lambda>present.
      if present
      then and_then (py_subscript item ''nextFundingTime'') (\<lambda>v.
           and_then (py_int e v) (\<lambda>n.
           and_then (div_1000 n) (\<lambda>seconds.
           and_then (fromtimestamp e seconds) (\<lambda>t. Inr (Some t)))))
      else Inr None)"

text \<open>
  The body of the item loop of \<^verbatim>\<open>BinanceAPI\<close> and \<^verbatim>\<open>BybitAPI\<close>, which differ
  in the exchange name, the mapping and the name of the rate field only. The result is the
  record to append, if any, or the exception raised. The constructor's arguments are
  evaluated in order, so the clock is read before the mark price is converted.
\<close>

definition instrument_record ::
  "string \<Rightarrow> (string \<times> string) list \<Rightarrow> string \<Rightarrow> env \<Rightarrow> string list \<Rightarrow> json \<Rightarrow> world
    \<Rightarrow> (pyerror + FundingRateData option) \<times> world" where
  "instrument_record exchange_name symbol_mapping rate_field e symbols item w =
    (case py_get item ''symbol'' (JStr []) of
       Inl err \<Rightarrow> (Inl err, w)
     | Inr symbol_name \<Rightarrow>
        (case find_base symbol_mapping symbol_name of
           None \<Rightarrow> (Inr None, w)
         | Some base_symbol \<Rightarrow>
            if base_symbol \<noteq> [] \<and> base_symbol \<in> set symbols
            then (case and_then (py_get item rate_field (JInt 0)) (py_float e) of
                    Inl err \<Rightarrow> (Inl err, w)
                  | Inr funding_rate \<Rightarrow>
                     (case next_funding_time_of e item of
                        Inl err \<Rightarrow> (Inl err, w)
                      | Inr nft \<Rightarrow>
                         (let (t, w') = datetime_now e w
                          in case and_then (py_get item ''markPrice'' (JInt 0)) (py_float e) of
                               Inl err \<Rightarrow> (Inl err, w')
                             | Inr mp \<Rightarrow>
                                (Inr (Some \<lparr> exchange = exchange_name, symbol = base_symbol,
                                   rate = funding_rate, timestamp = t, next_funding_time = nft,
                                   mark_price = Some mp \<rparr>), w'))))
            else (Inr None, w)))"

text \<open>
  A \<^verbatim>\<open>for\<close> loop inside one \<^verbatim>\<open>try\<close>: the first exception ends the loop, and
  \<^verbatim>\<open>funding_data\<close> keeps what was appended before.
\<close>

fun item_loop ::
  "(json \<Rightarrow> world \<Rightarrow> (pyerror + FundingRateData option) \<times> world) \<Rightarrow> json list
    \<Rightarrow> FundingRateData list \<Rightarrow> world \<Rightarrow> pyerror option \<times> FundingRateData list \<times> world" where
  "item_loop body [] funding_data w = (None, funding_data, w)"
| "item_loop body (item # rest) funding_data w =
     (case body item w of
        (Inl err, w') \<Rightarrow> (Some err, funding_data, w')
      | (Inr None, w') \<Rightarrow> item_loop body rest funding_data w'
      | (Inr (Some r), w') \<Rightarrow> item_loop body rest (funding_data @ [r]) w')"

text \<open>
  A \<^verbatim>\<open>for\<close> loop with the \<^verbatim>\<open>try\<close> inside (OKX, KuCoin): an exception is logged
  and the loop goes on with the next symbol.
\<close>

fun symbol_loop ::
  "(string \<Rightarrow> world \<Rightarrow> (pyerror + FundingRateData option) \<times> world) \<Rightarrow> string list
    \<Rightarrow> FundingRateData list \<Rightarrow> world \<Rightarrow> FundingRateData list \<times> world" where
  "symbol_loop body [] funding_data w = (funding_data, w)"
| "symbol_loop body (s # rest) funding_data w =
     (case body s w of
        (Inl err, w') \<Rightarrow> symbol_loop body rest funding_data w'
      | (Inr None, w') \<Rightarrow> symbol_loop body rest funding_data w'
      | (Inr (Some r), w') \<Rightarrow> symbol_loop body rest (funding_data @ [r]) w')"

text \<open>\<^verbatim>\<open>BinanceAPI.get_funding_rates\<close>.\<close>

definition binance_get_funding_rates ::
  "env \<Rightarrow> string list \<Rightarrow> world \<Rightarrow> (pyerror + FundingRateData list) \<times> world" where
  "binance_get_funding_rates e symbols w =
    (let (data, w1) = make_request e ''fapi/v1/premiumIndex'' [] w
     in if \<not> truthy data then (Inr [], w1)
        else (case py_iter data of
                Inl err \<Rightarrow> (Inr [], w1)
              | Inr items \<Rightarrow>
                 (let (err, funding_data, w2) =
                    item_loop (instrument_record ''Binance'' binance_symbol_mapping ''lastFundingRate''
                       e symbols) items [] w1
                  in (Inr funding_data, w2))))"

text \<open>\<^verbatim>\<open>BybitAPI.get_funding_rates\<close>.\<close>

definition bybit_get_funding_rates ::
  "env \<Rightarrow> string list \<Rightarrow> world \<Rightarrow> (pyerror + FundingRateData list) \<times> world" where
  "bybit_get_funding_rates e symbols w =
    (let (data, w1) = make_request e ''v5/market/instruments-info'' [(''category'', ''linear'')] w
     in if \<not> truthy data then (Inr [], w1)
        else (case py_contains ''result'' data of
                Inl err \<Rightarrow> (Inr [], w1)
              | Inr present \<Rightarrow>
                 if \<not> present then (Inr [], w1)
                 else (case and_then (and_then (py_subscript data ''result'')
                              (\<lambda>r. py_get r ''list'' (JArr []))) py_iter of
                         Inl err \<Rightarrow> (Inr [], w1)
                       | Inr instruments \<Rightarrow>
                          (let (err, funding_data, w2) =
                             item_loop (instrument_record ''Bybit'' bybit_symbol_mapping ''fundingRate''
                                e symbols) instruments [] w1
                           in (Inr funding_data, w2)))))"

text \<open>The body of the \<^verbatim>\<open>try\<close> of \<^verbatim>\<open>OKXAPI.get_funding_rates\<close> for one symbol.\<close>

definition okx_symbol_record ::
  "env \<Rightarrow> string \<Rightarrow> world \<Rightarrow> (pyerror + FundingRateData option) \<times> world" where
  "okx_symbol_record e s w =
    (case map_of okx_symbol_mapping s of
       None \<Rightarrow> (Inr None, w)
     | Some okx_symbol \<Rightarrow>
        (let (data, w1) = make_request e ''api/v5/public/funding-rate'' [(''instId'', okx_symbol)] w
         in if \<not> truthy data then (Inr None, w1)
            else (case py_contains ''data'' data of
                    Inl err \<Rightarrow> (Inl err, w1)
                  | Inr present \<Rightarrow>
                     if \<not> present then (Inr None, w1)
                     else (case py_subscript data ''data'' of
                             Inl err \<Rightarrow> (Inl err, w1)
                           | Inr d \<Rightarrow>
                              if \<not> truthy d then (Inr None, w1)
                              else (case py_index0 d of
                                      Inl err \<Rightarrow> (Inl err, w1)
                                    | Inr item \<Rightarrow>
                                       (case and_then (py_get item ''fundingRate'' (JInt 0)) (py_float e) of
                                          Inl err \<Rightarrow> (Inl err, w1)
                                        | Inr funding_rate \<Rightarrow>
                                           (case next_funding_time_of e item of
                                              Inl err \<Rightarrow> (Inl err, w1)
                                            | Inr nft \<Rightarrow>
                                               (let (t, w2) = datetime_now e w1
                                                in (Inr (Some \<lparr> exchange = ''OKX'', symbol = s,
                                                      rate = funding_rate, timestamp = t,
                                                      next_funding_time = nft, mark_price = None \<rparr>),
                                                    w2)))))))))"

text \<open>\<^verbatim>\<open>OKXAPI.get_funding_rates\<close>.\<close>

definition okx_get_funding_rates ::
  "env \<Rightarrow> string list \<Rightarrow> world \<Rightarrow> (pyerror + FundingRateData list) \<times> world" where
  "okx_get_funding_rates e symbols w =
    (let (funding_data, w') = symbol_loop (okx_symbol_record e) symbols [] w
     in (Inr funding_data, w'))"

text \<open>The body of the item loop of \<^verbatim>\<open>BitgetAPI.get_funding_rates\<close>.\<close>

definition bitget_item ::
  "env \<Rightarrow> string list \<Rightarrow> json \<Rightarrow> world \<Rightarrow> (pyerror + FundingRateData option) \<times> world" where
  "bitget_item e symbols item w =
    (case py_get item ''symbol'' (JStr []) of
       Inl err \<Rightarrow> (Inl err, w)
     | Inr symbol_name \<Rightarrow>
        (case find_base bitget_symbol_mapping symbol_name of
           None \<Rightarrow> (Inr None, w)
         | Some base_symbol \<Rightarrow>
            if base_symbol \<noteq> [] \<and> base_symbol \<in> set symbols
            then (let (ticker_data, w1) =
                        make_request e ''api/mix/v1/market/ticker'' [(''symbol'', str_of symbol_name)] w
                  in if \<not> truthy ticker_data then (Inr None, w1)
                     else (case py_contains ''data'' ticker_data of
                             Inl err \<Rightarrow> (Inl err, w1)
                           | Inr present \<Rightarrow>
                              if \<not> present then (Inr None, w1)
                              else (case and_then (and_then (py_subscript ticker_data ''data'')
                                           (\<lambda>ticker. py_get ticker ''fundingRate'' (JInt 0))) (py_float e) of
                                      Inl err \<Rightarrow> (Inl err, w1)
                                    | Inr funding_rate \<Rightarrow>
                                       (let (t, w2) = datetime_now e w1
                                        in (Inr (Some \<lparr> exchange = ''Bitget'', symbol = base_symbol,
                                              rate = funding_rate, timestamp = t,
                                              next_funding_time = None, mark_price = None \<rparr>), w2)))))
            else (Inr None, w)))"

text \<open>\<^verbatim>\<open>BitgetAPI.get_funding_rates\<close>.\<close>

definition bitget_get_funding_rates ::
  "env \<Rightarrow> string list \<Rightarrow> world \<Rightarrow> (pyerror + FundingRateData list) \<times> world" where
  "bitget_get_funding_rates e symbols w =
    (let (data, w1) = make_request e ''api/mix/v1/market/contracts'' [(''productType'', ''umcbl'')] w
     in if \<not> truthy data then (Inr [], w1)
        else (case py_contains ''data'' data of
                Inl err \<Rightarrow> (Inr [], w1)
              | Inr present \<Rightarrow>
                 if \<not> present then (Inr [], w1)
                 else (case and_then (py_subscript data ''data'') py_iter of
                         Inl err \<Rightarrow> (Inr [], w1)
                       | Inr items \<Rightarrow>
                          (let (err, funding_data, w2) = item_loop (bitget_item e symbols) items [] w1
                           in (Inr funding_data, w2)))))"

text \<open>
  The part of the KuCoin adapter that reads the contract data: the funding rate (replaced
  when the contract has a \<^verbatim>\<open>fundingFeeRate\<close>) and the mark price.
\<close>

definition kucoin_contract :: "env \<Rightarrow> real \<Rightarrow> json \<Rightarrow> pyerror + real \<times> real option" where
  "kucoin_contract e funding_rate contract_data =
    (if \<not> truthy contract_data then Inr (funding_rate, None)
     else and_then (py_get contract_data ''code'' JNull) (\<lambda>code.
       if code \<noteq> JStr ''200000'' then Inr (funding_rate, None)
       else and_then (py_get contract_data ''data'' (JObj [])) (\<lambda>contract_info.
            and_then (py_contains ''fundingFeeRate'' contract_info) (\<lambda>present.
            and_then (if present
                      then and_then (py_subscript contract_info ''fundingFeeRate'') (py_float e)
                      else Inr funding_rate) (\<lambda>funding_rate'.
            and_then (py_get contract_info ''markPrice'' JNull) (\<lambda>mp.
              if truthy mp
              then and_then (and_then (py_get contract_info ''markPrice'' (JInt 0)) (py_float e))
                     (\<lambda>mark_price. Inr (funding_rate', Some mark_price))
              else Inr (funding_rate', None)))))))"

text \<open>The body of the \<^verbatim>\<open>try\<close> of \<^verbatim>\<open>KuCoinAPI.get_funding_rates\<close> for one symbol.\<close>

definition kucoin_symbol_record ::
  "env \<Rightarrow> string \<Rightarrow> world \<Rightarrow> (pyerror + FundingRateData option) \<times> world" where
  "kucoin_symbol_record e s w =
    (case map_of kucoin_symbol_mapping s of
       None \<Rightarrow> (Inr None, w)
     | Some kucoin_symbol \<Rightarrow>
        (let (data, w1) = make_request e (''api/v1/funding-rate/'' @ kucoin_symbol @ ''/current'') [] w
         in if \<not> truthy data then (Inr None, w1)
            else (case py_get data ''code'' JNull of
                    Inl err \<Rightarrow> (Inl err, w1)
                  | Inr code \<Rightarrow>
                     if code \<noteq> JStr ''200000'' then (Inr None, w1)
                     else (case py_contains ''data'' data of
                             Inl err \<Rightarrow> (Inl err, w1)
                           | Inr present \<Rightarrow>
                              if \<not> present then (Inr None, w1)
                              else (case and_then (and_then (py_subscript data ''data'')
                                           (\<lambda>item. py_get item ''value'' (JInt 0))) (py_float e) of
                                      Inl err \<Rightarrow> (Inl err, w1)
                                    | Inr funding_rate \<Rightarrow>
                                       (let (contract_data, w2) =
                                              make_request e (''api/v1/contracts/'' @ kucoin_symbol) [] w1
                                        in case kucoin_contract e funding_rate contract_data of
                                             Inl err \<Rightarrow> (Inl err, w2)
                                           | Inr (funding_rate', mp) \<Rightarrow>
                                              (let (t, w3) = datetime_now e w2
                                               in (Inr (Some \<lparr> exchange = ''KuCoin'', symbol = s,
                                                     rate = funding_rate', timestamp = t,
                                                     next_funding_time = None, mark_price = mp \<rparr>),
                                                   w3))))))))"

text \<open>\<^verbatim>\<open>KuCoinAPI.get_funding_rates\<close>.\<close>

definition kucoin_get_funding_rates ::
  "env \<Rightarrow> string list \<Rightarrow> world \<Rightarrow> (pyerror + FundingRateData list) \<times> world" where
  "kucoin_get_funding_rates e symbols w =
    (let (funding_data, w') = symbol_loop (kucoin_symbol_record e) symbols [] w
     in (Inr funding_data, w'))"

section \<open>Collecting from all exchanges\<close>

type_synonym adapter = "string list \<Rightarrow> world \<Rightarrow> (pyerror + FundingRateData list) \<times> world"

text \<open>
  \<^verbatim>\<open>FundingRateCollector.__init__\<close>: the five adapters in the order of the dict
  literal, filtered by \<^verbatim>\<open>config.ENABLED_EXCHANGES\<close>.
\<close>

definition collector_exchanges :: "env \<Rightarrow> string list \<Rightarrow> (string \<times> adapter) list" where
  "collector_exchanges e enabled =
    filter (\<lambda>(k, v). k \<in> set enabled)
      [(''binance'', binance_get_funding_rates e), (''bybit'', bybit_get_funding_rates e),
       (''okx'', okx_get_funding_rates e), (''bitget'', bitget_get_funding_rates e),
       (''kucoin'', kucoin_get_funding_rates e)]"

text \<open>
  The loop of \<^verbatim>\<open>collect_all_funding_rates\<close>, written for arbitrary adapters, which
  may raise: an exception is logged and the loop continues with the next exchange.
\<close>

fun collect_loop ::
  "(string \<times> adapter) list \<Rightarrow> string list \<Rightarrow> FundingRateData list \<Rightarrow> world
    \<Rightarrow> FundingRateData list \<times> world" where
  "collect_loop [] symbols all_funding_data w = (all_funding_data, w)"
| "collect_loop ((exchange_name, api) # rest) symbols all_funding_data w =
     (case api symbols w of
        (Inr rates, w') \<Rightarrow> collect_loop rest symbols (all_funding_data @ rates) w'
      | (Inl err, w') \<Rightarrow> collect_loop rest symbols all_funding_data w')"

definition collect_all_funding_rates ::
  "(string \<times> adapter) list \<Rightarrow> string list \<Rightarrow> world \<Rightarrow> FundingRateData list \<times> world" where
  "collect_all_funding_rates exchanges symbols w = collect_loop exchanges symbols [] w"

section \<open>The bot: scanning and saving\<close>

text \<open>
  The attributes of \<^verbatim>\<open>FundingRateBot\<close> and of its collector, and the entries of
  \<^verbatim>\<open>config\<close> they are read from.
\<close>

record FundingRateBot =
  bot_symbols :: "string list"
  min_profit_threshold :: real
  position_size :: real
  enabled_exchanges :: "string list"
  fee_table :: "string \<rightharpoonup> real"
  slippage_table :: "string \<rightharpoonup> real"
  data_dir :: string

text \<open>
  The dict that \<^verbatim>\<open>save_opportunities\<close> appends for one opportunity; \<open>t\<close> is the
  reading of the clock for its \<^verbatim>\<open>timestamp\<close>.
\<close>

definition opportunity_fields ::
  "FundingRateBot \<Rightarrow> env \<Rightarrow> datetime \<Rightarrow> ArbitrageOpportunity \<Rightarrow> (string \<times> json) list" where
  "opportunity_fields self e t opp =
    [(''timestamp'', JStr (isoformat e t)),
     (''symbol'', JStr (op_symbol opp)),
     (''long_exchange'', JStr (long_exchange opp)),
     (''short_exchange'', JStr (short_exchange opp)),
     (''long_rate'', JNum (long_rate opp)),
     (''short_rate'', JNum (short_rate opp)),
     (''rate_difference'', JNum (rate_difference opp)),
     (''net_profit_8h_pct'', JNum (net_profit_8h opp)),
     (''estimated_profit_usd'', JNum (net_profit_8h opp * position_size self)),
     (''next_funding_time'',
        (case op_next_funding_time opp of None \<Rightarrow> JNull | Some nft \<Rightarrow> JStr (isoformat e nft)))]"

fun save_entries ::
  "FundingRateBot \<Rightarrow> env \<Rightarrow> ArbitrageOpportunity list \<Rightarrow> world \<Rightarrow> json list \<times> world" where
  "save_entries self e [] w = ([], w)"
| "save_entries self e (opp # rest) w =
     (let (t, w1) = datetime_now e w;
          (data, w2) = save_entries self e rest w1
      in (JObj (opportunity_fields self e t opp) # data, w2))"

text \<open>
  \<^verbatim>\<open>FundingRateBot.save_opportunities\<close>. The files are a map from names to the JSON
  value dumped into them; opening the file in the data directory, which the module creates
  when it is loaded, and writing to it are taken to succeed.
\<close>

definition save_opportunities ::
  "FundingRateBot \<Rightarrow> env \<Rightarrow> ArbitrageOpportunity list \<Rightarrow> (string \<rightharpoonup> json) \<Rightarrow> world
    \<Rightarrow> (string \<rightharpoonup> json) \<times> world" where
  "save_opportunities self e opportunities files w =
    (let (t0, w1) = datetime_now e w;
         timestamp_str = strftime e t0 ''%Y%m%d_%H%M%S'';
         filename = data_dir self @ ''/opportunities_'' @ timestamp_str @ ''.json'';
         (data, w2) = save_entries self e opportunities w1
     in (files(filename \<mapsto> JArr data), w2))"

text \<open>
  \<^verbatim>\<open>FundingRateBot.scan_opportunities\<close>. The first component of the result is the list
  handed to \<^verbatim>\<open>display_opportunities\<close>; printing and logging have no other effect.
  Nothing in the body of the \<^verbatim>\<open>try\<close> raises here, so its handler has no branch.
\<close>

definition scan_opportunities ::
  "FundingRateBot \<Rightarrow> env \<Rightarrow> (string \<rightharpoonup> json) \<Rightarrow> world
    \<Rightarrow> ArbitrageOpportunity list \<times> (string \<rightharpoonup> json) \<times> world" where
  "scan_opportunities self e files w =
    (let (funding_data, w1) =
           collect_all_funding_rates (collector_exchanges e (enabled_exchanges self)) (bot_symbols self) w
     in if funding_data = [] then ([], files, w1)
        else (let opportunities =
                    find_arbitrage_opportunities (fee_table self) (slippage_table self) funding_data;
                  profitable_ops =
                    filter (\<lambda>opp. net_profit_8h opp \<ge> min_profit_threshold self) opportunities
              in if profitable_ops \<noteq> []
                 then (let (files', w2) = save_opportunities self e profitable_ops files w1
                       in (take 5 profitable_ops, files', w2))
                 else (take 3 opportunities, files, w1)))"

text \<open>
  Names for what a scan collects, for the opportunities that meet the threshold and for the
  name of the file, in terms of which the behaviour of a scan is stated.
\<close>

definition scan_collected :: "FundingRateBot \<Rightarrow> env \<Rightarrow> world \<Rightarrow> FundingRateData list \<times> world" where
  "scan_collected self e w =
    collect_all_funding_rates (collector_exchanges e (enabled_exchanges self)) (bot_symbols self) w"

definition scan_profitable :: "FundingRateBot \<Rightarrow> env \<Rightarrow> world \<Rightarrow> ArbitrageOpportunity list" where
  "scan_profitable self e w =
    filter (\<lambda>opp. net_profit_8h opp \<ge> min_profit_threshold self)
      (find_arbitrage_opportunities (fee_table self) (slippage_table self) (fst (scan_collected self e w)))"

definition scan_filename :: "FundingRateBot \<Rightarrow> env \<Rightarrow> world \<Rightarrow> string" where
  "scan_filename self e w =
    data_dir self @ ''/opportunities_'' @
      strftime e (now e (clock_reads (snd (scan_collected self e w)))) ''%Y%m%d_%H%M%S'' @ ''.json''"

section \<open>An example scan\<close>

definition example_world :: world where
  "example_world = \<lparr> requests = 0, clock_reads = 0 \<rparr>"

text \<open>
  A bot that polls OKX and KuCoin for BTC, and two environments. In the first, OKX quotes
  a rate of 0.0100 and KuCoin one of 0.0001, and the contract request of KuCoin fails; the
  clock ticks once per reading. In the second, every request fails.
\<close>

definition example_bot :: FundingRateBot where
  "example_bot =
     \<lparr> bot_symbols = [''BTC''], min_profit_threshold = 0.005, position_size = 1000,
       enabled_exchanges = [''okx'', ''kucoin''],
       fee_table = [''OKX'' \<mapsto> 0.09, ''KuCoin'' \<mapsto> 0.09],
       slippage_table = [''BTC'' \<mapsto> 0.01], data_dir = ''data'' \<rparr>"

definition example_env :: env where
  "example_env =
     \<lparr> http = (\<lambda>n endpoint params.
         if endpoint = ''api/v5/public/funding-rate''
         then Response 200 (Some (JObj [(''data'', JArr [JObj [(''fundingRate'', JStr ''0.0100'')]])]))
         else if endpoint = ''api/v1/funding-rate/XBTUSDTM/current''
         then Response 200 (Some (JObj [(''code'', JStr ''200000''),
                                        (''data'', JObj [(''value'', JNum 0.0001)])]))
         else Response 500 None),
       now = (\<lambda>n. int n),
       parse_float = (\<lambda>s. if s = ''0.0100'' then Some 0.01 else None),
       parse_int = (\<lambda>s. None),
       fromtimestamp = (\<lambda>r. Inr \<lfloor>r\<rfloor>),
       strftime = (\<lambda>t fmt. if t = 2 then ''19700101_000002'' else ''19700101_000000''),
       isoformat = (\<lambda>t. if t = 3 then ''1970-01-01T00:00:03'' else ''1970-01-01T00:00:00'') \<rparr>"

definition example_env_down :: env where
  "example_env_down = example_env \<lparr> http := (\<lambda>n endpoint params. ConnectionFailed) \<rparr>"

definition example_saved :: json where
  "example_saved =
     JArr [JObj [(''timestamp'', JStr ''1970-01-01T00:00:03''), (''symbol'', JStr ''BTC''),
                 (''long_exchange'', JStr ''OKX''), (''short_exchange'', JStr ''KuCoin''),
                 (''long_rate'', JNum 0.01), (''short_rate'', JNum 0.0001),
                 (''rate_difference'', JNum 0.0099), (''net_profit_8h_pct'', JNum 0.0059),
                 (''estimated_profit_usd'', JNum 5.9), (''next_funding_time'', JNull)]]"

text \<open>
  An environment in which Bitget lists the BTC and the ETH contract, its ticker for BTC has
  \<^verbatim>\<open>null\<close> data and its ticker for ETH a rate of 0.0100; OKX likewise answers the
  request for BTC with a \<^verbatim>\<open>null\<close> item and the one for ETH with a rate of 0.0100.
\<close>

definition malformed_ticker_env :: env where
  "malformed_ticker_env = example_env \<lparr> http := (\<lambda>n endpoint params.
      if endpoint = ''api/mix/v1/market/contracts''
      then Response 200 (Some (JObj [(''data'',
             JArr [JObj [(''symbol'', JStr ''BTCUSDT_UMCBL'')],
                   JObj [(''symbol'', JStr ''ETHUSDT_UMCBL'')]])]))
      else if endpoint = ''api/mix/v1/market/ticker''
      then (if params = [(''symbol'', ''BTCUSDT_UMCBL'')]
            then Response 200 (Some (JObj [(''data'', JNull)]))
            else Response 200 (Some (JObj [(''data'', JObj [(''fundingRate'', JStr ''0.0100'')])])))
      else if endpoint = ''api/v5/public/funding-rate''
      then (if params = [(''instId'', ''BTC-USDT-SWAP'')]
            then Response 200 (Some (JObj [(''data'', JArr [JNull])]))
            else Response 200 (Some (JObj [(''data'', JArr [JObj [(''fundingRate'', JStr ''0.0100'')]])])))
      else Response 500 None) \<rparr>"

section \<open>The profit formula\<close>

text \<open>
  C1. For every pair of records, the opportunity built by
  \<^verbatim>\<open>_calculate_arbitrage_profit\<close> has
  net_profit_8h = rate_difference - (fee_long + fee_short + 2 * slippage + 0.002), where
  fee_long and fee_short are the entries of the fee table for the long and the short
  exchange and slippage is the entry of the slippage table for the symbol, each given in
  percent and divided by 100 (an absent entry counts as 0.1 and 0.05 percent); estimated_fees
  is that sum, the gross profit is rate_difference, and rate_difference is the long rate
  minus the short rate.
\<close>

theorem calculate_arbitrage_profit_formula:
  "(fs (exchange long_r) = Some fee_long \<and> fs (exchange short_r) = Some fee_short \<and>
      sl symb = Some slippage \<longrightarrow>
      net_profit_8h (calculate_arbitrage_profit fs sl long_r short_r symb) =
        rate_difference (calculate_arbitrage_profit fs sl long_r short_r symb) -
          (fee_long / 100 + fee_short / 100 + 2 * (slippage / 100) + 0.002)
      \<and> estimated_fees (calculate_arbitrage_profit fs sl long_r short_r symb) =
          fee_long / 100 + fee_short / 100 + 2 * (slippage / 100) + 0.002)
   \<and> net_profit_8h (calculate_arbitrage_profit fs sl long_r short_r symb) =
       rate_difference (calculate_arbitrage_profit fs sl long_r short_r symb) -
         ((case fs (exchange long_r) of None \<Rightarrow> 0.1 | Some f \<Rightarrow> f) / 100 +
          (case fs (exchange short_r) of None \<Rightarrow> 0.1 | Some f \<Rightarrow> f) / 100 +
          2 * ((case sl symb of None \<Rightarrow> 0.05 | Some p \<Rightarrow> p) / 100) + 0.002)
   \<and> estimated_fees (calculate_arbitrage_profit fs sl long_r short_r symb) =
       (case fs (exchange long_r) of None \<Rightarrow> 0.1 | Some f \<Rightarrow> f) / 100 +
       (case fs (exchange short_r) of None \<Rightarrow> 0.1 | Some f \<Rightarrow> f) / 100 +
       2 * ((case sl symb of None \<Rightarrow> 0.05 | Some p \<Rightarrow> p) / 100) + 0.002
   \<and> potential_profit_8h (calculate_arbitrage_profit fs sl long_r short_r symb) =
       rate_difference (calculate_arbitrage_profit fs sl long_r short_r symb)
   \<and> rate_difference (calculate_arbitrage_profit fs sl long_r short_r symb) =
       rate long_r - rate short_r"
  by (simp add: calculate_arbitrage_profit_def dict_get_def Let_def split: option.splits)

theorem calculate_arbitrage_profit_formula_witness:
  "example_fees (exchange (example_record ''ExchangeA'' ''BTC'' 0.0060)) = Some 0.08 \<and>
   example_fees (exchange (example_record ''ExchangeB'' ''BTC'' 0.0002)) = Some 0.08 \<and>
   example_slippage ''BTC'' = Some 0.01 \<and>
   net_profit_8h (calculate_arbitrage_profit example_fees example_slippage
       (example_record ''ExchangeA'' ''BTC'' 0.0060) (example_record ''ExchangeB'' ''BTC'' 0.0002) ''BTC'') =
     rate_difference (calculate_arbitrage_profit example_fees example_slippage
       (example_record ''ExchangeA'' ''BTC'' 0.0060) (example_record ''ExchangeB'' ''BTC'' 0.0002) ''BTC'') -
       (0.08 / 100 + 0.08 / 100 + 2 * (0.01 / 100) + 0.002) \<and>
   estimated_fees (calculate_arbitrage_profit example_fees example_slippage
       (example_record ''ExchangeA'' ''BTC'' 0.0060) (example_record ''ExchangeB'' ''BTC'' 0.0002) ''BTC'') =
     0.08 / 100 + 0.08 / 100 + 2 * (0.01 / 100) + 0.002 \<and>
   rate_difference (calculate_arbitrage_profit example_fees example_slippage
       (example_record ''ExchangeA'' ''BTC'' 0.0060) (example_record ''ExchangeB'' ''BTC'' 0.0002) ''BTC'') =
     0.0058"
proof -
  have h: "example_fees (exchange (example_record ''ExchangeA'' ''BTC'' 0.0060)) = Some 0.08 \<and>
      example_fees (exchange (example_record ''ExchangeB'' ''BTC'' 0.0002)) = Some 0.08 \<and>
      example_slippage ''BTC'' = Some 0.01"
    by (simp add: example_fees_def example_slippage_def example_record_def)
  from h calculate_arbitrage_profit_formula [where fs = example_fees and sl = example_slippage
      and long_r = "example_record ''ExchangeA'' ''BTC'' 0.0060"
      and short_r = "example_record ''ExchangeB'' ''BTC'' 0.0002" and symb = "''BTC''"
      and fee_long = "0.08" and fee_short = "0.08" and slippage = "0.01"]
  show ?thesis by (simp add: example_record_def)
qed

section \<open>Grouping and pair enumeration\<close>

lemma first_occurrences_snoc:
  "first_occurrences (xs @ [x]) = (if x \<in> set xs then first_occurrences xs else first_occurrences xs @ [x])"
  by (simp add: first_occurrences_def)

lemma set_first_occurrences: "set (first_occurrences xs) = set xs"
  by (simp add: first_occurrences_def)

lemma distinct_first_occurrences: "distinct (first_occurrences xs)"
  by (simp add: first_occurrences_def)

lemma group_append_keys:
  "distinct ks \<Longrightarrow> group_append (map (\<lambda>s. (s, f s)) ks) d =
     (if symbol d \<in> set ks
      then map (\<lambda>s. (s, if s = symbol d then f s @ [d] else f s)) ks
      else map (\<lambda>s. (s, f s)) ks @ [(symbol d, [d])])"
  by (induction ks) auto

lemma symbol_groups_snoc: "symbol_groups (xs @ [x]) = group_append (symbol_groups xs) x"
  by (simp add: symbol_groups_def)

lemma symbol_groups_eq:
  "symbol_groups funding_data =
     map (\<lambda>s. (s, records_of s funding_data)) (first_occurrences (map symbol funding_data))"
proof (induction funding_data rule: rev_induct)
  case Nil
  show ?case by (simp add: symbol_groups_def first_occurrences_def)
next
  case (snoc x xs)
  let ?ks = "first_occurrences (map symbol xs)"
  have d: "distinct ?ks" by (rule distinct_first_occurrences)
  have s: "set ?ks = symbol ` set xs" by (simp add: set_first_occurrences)
  have "symbol_groups (xs @ [x]) = group_append (map (\<lambda>s. (s, records_of s xs)) ?ks) x"
    by (simp add: symbol_groups_snoc snoc.IH)
  also have "\<dots> = (if symbol x \<in> set ?ks
      then map (\<lambda>s. (s, if s = symbol x then records_of s xs @ [x] else records_of s xs)) ?ks
      else map (\<lambda>s. (s, records_of s xs)) ?ks @ [(symbol x, [x])])"
    by (rule group_append_keys [OF d])
  also have "\<dots> = map (\<lambda>s. (s, records_of s (xs @ [x]))) (first_occurrences (map symbol (xs @ [x])))"
  proof (cases "symbol x \<in> symbol ` set xs")
    case True
    then show ?thesis
      by (auto simp: first_occurrences_snoc s records_of_def)
  next
    case False
    then have "records_of (symbol x) xs = []"
      unfolding records_of_def filter_empty_conv by (metis imageI)
    with False show ?thesis
      by (auto simp: first_occurrences_snoc s records_of_def)
  qed
  finally show ?case .
qed


lemma precedes_in_Nil: "\<not> precedes_in [] a b"
  by (simp add: precedes_in_def)

lemma precedes_in_Cons:
  "precedes_in (x # xs) a b \<longleftrightarrow> (x = a \<and> b \<in> set xs) \<or> precedes_in xs a b"
proof
  assume "precedes_in (x # xs) a b"
  then obtain i j where ij: "i < j" "j < Suc (length xs)" "(x # xs) ! i = a" "(x # xs) ! j = b"
    by (auto simp: precedes_in_def)
  from ij(1) obtain j' where j': "j = Suc j'" by (cases j) auto
  show "(x = a \<and> b \<in> set xs) \<or> precedes_in xs a b"
  proof (cases i)
    case 0
    with ij j' show ?thesis by auto
  next
    case (Suc i')
    with ij j' have "i' < j'" "j' < length xs" "xs ! i' = a" "xs ! j' = b" by auto
    then show ?thesis unfolding precedes_in_def by blast
  qed
next
  assume "(x = a \<and> b \<in> set xs) \<or> precedes_in xs a b"
  then show "precedes_in (x # xs) a b"
  proof
    assume h: "x = a \<and> b \<in> set xs"
    then obtain j where "j < length xs" "xs ! j = b" by (auto simp: in_set_conv_nth)
    with h have "0 < Suc j \<and> Suc j < length (x # xs) \<and> (x # xs) ! 0 = a \<and> (x # xs) ! Suc j = b"
      by simp
    then show ?thesis unfolding precedes_in_def by blast
  next
    assume "precedes_in xs a b"
    then obtain i j where "i < j" "j < length xs" "xs ! i = a" "xs ! j = b"
      by (auto simp: precedes_in_def)
    then have "Suc i < Suc j \<and> Suc j < length (x # xs) \<and> (x # xs) ! Suc i = a \<and> (x # xs) ! Suc j = b"
      by simp
    then show ?thesis unfolding precedes_in_def by blast
  qed
qed

lemma precedes_in_set: "precedes_in xs a b \<Longrightarrow> a \<in> set xs \<and> b \<in> set xs"
  by (auto simp: precedes_in_def)

lemma precedes_in_filter:
  "precedes_in (filter P xs) a b \<longleftrightarrow> P a \<and> P b \<and> precedes_in xs a b"
  by (induction xs) (auto simp: precedes_in_Nil precedes_in_Cons)

lemma set_pair_opportunity:
  "x \<in> set (pair_opportunity fs sl s a b) \<longleftrightarrow>
     0.0001 < rate (fst (assign_legs a b)) - rate (snd (assign_legs a b)) \<and>
     x = calculate_arbitrage_profit fs sl (fst (assign_legs a b)) (snd (assign_legs a b)) s \<and>
     0 < net_profit_8h x"
  by (auto simp: pair_opportunity_def Let_def case_prod_beta)

lemma in_concat_mapI: "i \<in> set ns \<Longrightarrow> x \<in> set (f i) \<Longrightarrow> x \<in> set (concat (map f ns))"
  by auto

lemma set_group_opportunities:
  "x \<in> set (group_opportunities fs sl s rates) \<longleftrightarrow>
     (\<exists>a b. precedes_in rates a b \<and> x \<in> set (pair_opportunity fs sl s a b))"
proof (cases "length rates < 2")
  case True
  then have "\<not> precedes_in rates a b" for a b
    by (auto simp: precedes_in_def)
  with True show ?thesis by (simp add: group_opportunities_def)
next
  case False
  let ?n = "length rates"
  let ?f = "\<lambda>i j. pair_opportunity fs sl s (rates ! i) (rates ! j)"
  have "x \<in> set (group_opportunities fs sl s rates) \<longleftrightarrow>
      (\<exists>i j. i < j \<and> j < ?n \<and> x \<in> set (?f i j))"
  proof
    assume "x \<in> set (group_opportunities fs sl s rates)"
    with False obtain i j where "Suc i \<le> j" "j < ?n" "x \<in> set (?f i j)"
      by (auto simp: group_opportunities_def)
    then have "i < j \<and> j < ?n \<and> x \<in> set (?f i j)" by simp
    then show "\<exists>i j. i < j \<and> j < ?n \<and> x \<in> set (?f i j)" by blast
  next
    assume "\<exists>i j. i < j \<and> j < ?n \<and> x \<in> set (?f i j)"
    then obtain i j where ij: "i < j" "j < ?n" "x \<in> set (?f i j)" by blast
    have "j \<in> set [i + 1..<?n]" using ij by simp
    then have inner: "x \<in> set (concat (map (\<lambda>j. ?f i j) [i + 1..<?n]))"
      using ij(3) by (rule in_concat_mapI)
    have "i \<in> set [0..<?n]" using ij by simp
    then have "x \<in> set (concat (map (\<lambda>i. concat (map (\<lambda>j. ?f i j) [i + 1..<?n])) [0..<?n]))"
      using inner by (rule in_concat_mapI)
    with False show "x \<in> set (group_opportunities fs sl s rates)"
      by (simp only: group_opportunities_def if_False)
  qed
  also have "\<dots> \<longleftrightarrow> (\<exists>a b. precedes_in rates a b \<and> x \<in> set (pair_opportunity fs sl s a b))"
  proof
    assume "\<exists>i j. i < j \<and> j < ?n \<and> x \<in> set (?f i j)"
    then obtain i j where ij: "i < j" "j < ?n" "x \<in> set (?f i j)" by blast
    then have "precedes_in rates (rates ! i) (rates ! j)"
      unfolding precedes_in_def by (intro exI [of _ i] exI [of _ j]) simp
    with ij(3) show "\<exists>a b. precedes_in rates a b \<and> x \<in> set (pair_opportunity fs sl s a b)"
      by (intro exI [of _ "rates ! i"] exI [of _ "rates ! j"]) simp
  next
    assume "\<exists>a b. precedes_in rates a b \<and> x \<in> set (pair_opportunity fs sl s a b)"
    then obtain a b where ab: "precedes_in rates a b" "x \<in> set (pair_opportunity fs sl s a b)"
      by blast
    from ab(1) obtain i j where "i < j" "j < ?n" "rates ! i = a" "rates ! j = b"
      unfolding precedes_in_def by blast
    with ab(2) show "\<exists>i j. i < j \<and> j < ?n \<and> x \<in> set (?f i j)"
      by (intro exI [of _ i] exI [of _ j]) simp
  qed
  finally show ?thesis .
qed

lemma set_collected_opportunities:
  "x \<in> set (collected_opportunities fs sl funding_data) \<longleftrightarrow>
     (\<exists>a b. precedes_in funding_data a b \<and> symbol a = symbol b \<and>
        x \<in> set (pair_opportunity fs sl (symbol a) a b))"
proof -
  have "x \<in> set (collected_opportunities fs sl funding_data) \<longleftrightarrow>
      (\<exists>s \<in> symbol ` set funding_data. x \<in> set (group_opportunities fs sl s (records_of s funding_data)))"
    by (auto simp: collected_opportunities_def symbol_groups_eq set_first_occurrences)
  also have "\<dots> \<longleftrightarrow> (\<exists>s \<in> symbol ` set funding_data. \<exists>a b. symbol a = s \<and> symbol b = s \<and>
      precedes_in funding_data a b \<and> x \<in> set (pair_opportunity fs sl s a b))"
    by (simp add: set_group_opportunities records_of_def precedes_in_filter)
  also have "\<dots> \<longleftrightarrow> (\<exists>a b. precedes_in funding_data a b \<and> symbol a = symbol b \<and>
        x \<in> set (pair_opportunity fs sl (symbol a) a b))"
  proof
    assume "\<exists>s \<in> symbol ` set funding_data. \<exists>a b. symbol a = s \<and> symbol b = s \<and>
      precedes_in funding_data a b \<and> x \<in> set (pair_opportunity fs sl s a b)"
    then obtain a b where "precedes_in funding_data a b" "symbol a = symbol b"
      "x \<in> set (pair_opportunity fs sl (symbol a) a b)" by auto
    then show "\<exists>a b. precedes_in funding_data a b \<and> symbol a = symbol b \<and>
        x \<in> set (pair_opportunity fs sl (symbol a) a b)" by blast
  next
    assume "\<exists>a b. precedes_in funding_data a b \<and> symbol a = symbol b \<and>
        x \<in> set (pair_opportunity fs sl (symbol a) a b)"
    then obtain a b where ab: "precedes_in funding_data a b" "symbol a = symbol b"
      "x \<in> set (pair_opportunity fs sl (symbol a) a b)" by blast
    from ab(1) have "symbol a \<in> symbol ` set funding_data"
      using precedes_in_set [of funding_data a b] by simp
    with ab show "\<exists>s \<in> symbol ` set funding_data. \<exists>a b. symbol a = s \<and> symbol b = s \<and>
      precedes_in funding_data a b \<and> x \<in> set (pair_opportunity fs sl s a b)"
      by (intro bexI [of _ "symbol a"] exI [of _ a] exI [of _ b]) simp_all
  qed
  finally show ?thesis .
qed

lemma set_find_arbitrage_opportunities:
  "set (find_arbitrage_opportunities fs sl funding_data) = set (collected_opportunities fs sl funding_data)"
  by (simp add: find_arbitrage_opportunities_def sorted_reverse_def)

section \<open>Properties of the search\<close>

lemmas example_defs = example_fees_def example_slippage_def example_record_def example_opportunity_def

lemmas find_defs = find_arbitrage_opportunities_def sorted_reverse_def collected_opportunities_def
  symbol_groups_def group_opportunities_def pair_opportunity_def assign_legs_def
  calculate_arbitrage_profit_def dict_get_def py_or_def Let_def

text \<open>
  The two worked examples of the specification: rates 0.0060 and 0.0002 give one opportunity
  with net profit 0.0020; rates 0.0010 and 0.0002 give none.
\<close>

lemma spec_example_included:
  "find_arbitrage_opportunities example_fees example_slippage
     [example_record ''ExchangeB'' ''BTC'' 0.0002, example_record ''ExchangeA'' ''ETH'' 0.5,
      example_record ''ExchangeA'' ''BTC'' 0.0060] = [example_opportunity]"
  by (simp add: find_defs example_defs)

lemma spec_example_excluded:
  "find_arbitrage_opportunities example_fees example_slippage
     [example_record ''ExchangeA'' ''BTC'' 0.0010, example_record ''ExchangeB'' ''BTC'' 0.0002] = []"
  by (simp add: find_defs example_defs)

text \<open>
  C5. For every list of input records, the list returned by
  \<^verbatim>\<open>find_arbitrage_opportunities\<close> is sorted non-increasing by net_profit_8h.
\<close>

theorem find_sorted_descending:
  "sorted_wrt (\<lambda>a b. net_profit_8h a \<ge> net_profit_8h b) (find_arbitrage_opportunities fs sl funding_data)"
proof -
  let ?xs = "collected_opportunities fs sl funding_data"
  have "sorted (map (\<lambda>x. - net_profit_8h x) (sort_key (\<lambda>x. - net_profit_8h x) ?xs))"
    by (rule sorted_sort_key)
  then have "sorted_wrt (\<lambda>a b. - net_profit_8h a \<le> - net_profit_8h b) (sort_key (\<lambda>x. - net_profit_8h x) ?xs)"
    by (simp add: sorted_map)
  then show ?thesis
    by (simp add: find_arbitrage_opportunities_def sorted_reverse_def)
qed


lemma found_from_pair:
  assumes "opp \<in> set (find_arbitrage_opportunities fs sl funding_data)"
  obtains i j where "i < j" "j < length funding_data"
    "symbol (funding_data ! i) = symbol (funding_data ! j)"
    "opp \<in> set (pair_opportunity fs sl (symbol (funding_data ! i)) (funding_data ! i) (funding_data ! j))"
proof -
  from assms obtain a b where ab: "precedes_in funding_data a b" "symbol a = symbol b"
      "opp \<in> set (pair_opportunity fs sl (symbol a) a b)"
    unfolding set_find_arbitrage_opportunities set_collected_opportunities by blast
  from ab(1) obtain i j where "i < j" "j < length funding_data" "funding_data ! i = a" "funding_data ! j = b"
    unfolding precedes_in_def by blast
  with ab(2,3) show thesis by (intro that [of i j]) simp_all
qed

lemma pair_found:
  assumes "i < j" "j < length funding_data"
    "symbol (funding_data ! i) = symbol (funding_data ! j)"
    "opp \<in> set (pair_opportunity fs sl (symbol (funding_data ! i)) (funding_data ! i) (funding_data ! j))"
  shows "opp \<in> set (find_arbitrage_opportunities fs sl funding_data)"
proof -
  from assms(1,2) have "precedes_in funding_data (funding_data ! i) (funding_data ! j)"
    unfolding precedes_in_def by (intro exI [of _ i] exI [of _ j]) simp
  with assms(3,4) show ?thesis
    unfolding set_find_arbitrage_opportunities set_collected_opportunities
    by (intro exI [of _ "funding_data ! i"] exI [of _ "funding_data ! j"]) simp
qed


lemma example_found:
  "find_arbitrage_opportunities example_fees example_slippage example_data = [example_opportunity]"
  by (simp add: find_defs example_defs example_data_def)


lemma op_symbol_calculate: "op_symbol (calculate_arbitrage_profit fs sl a b s) = s"
  by (simp add: calculate_arbitrage_profit_def Let_def)

lemma rate_difference_calculate:
  "rate_difference (calculate_arbitrage_profit fs sl a b s) = rate a - rate b"
  by (simp add: calculate_arbitrage_profit_def Let_def)

lemma assign_legs_difference:
  "rate (fst (assign_legs a b)) - rate (snd (assign_legs a b)) = \<bar>rate a - rate b\<bar>"
  by (simp add: assign_legs_def)

lemma pair_opportunity_noise:
  assumes "\<bar>rate a - rate b\<bar> \<le> 0.0001"
  shows "pair_opportunity fs sl s a b = []"
proof -
  have "\<not> 0.0001 < rate (fst (assign_legs a b)) - rate (snd (assign_legs a b))"
    unfolding assign_legs_difference using assms by linarith
  then have none: "x \<notin> set (pair_opportunity fs sl s a b)" for x
    unfolding set_pair_opportunity by blast
  show ?thesis
  proof (cases "pair_opportunity fs sl s a b")
    case Nil
    then show ?thesis .
  next
    case (Cons y ys)
    then have "y \<in> set (pair_opportunity fs sl s a b)" by simp
    with none show ?thesis by blast
  qed
qed

text \<open>
  C3. An opportunity is in the output only if it is built from two distinct records
  (indices \<open>i < j\<close>) of the same symbol whose rate difference is strictly greater than
  0.0001; a pair whose rates differ by at most 0.0001 contributes nothing; and a symbol with
  at most one record has no opportunity in the output.
\<close>

theorem find_only_real_spreads:
  "(opp \<in> set (find_arbitrage_opportunities fs sl funding_data) \<longrightarrow>
      (\<exists>i j. i < j \<and> j < length funding_data \<and>
         symbol (funding_data ! i) = op_symbol opp \<and> symbol (funding_data ! j) = op_symbol opp \<and>
         opp = calculate_arbitrage_profit fs sl
                 (fst (assign_legs (funding_data ! i) (funding_data ! j)))
                 (snd (assign_legs (funding_data ! i) (funding_data ! j))) (op_symbol opp) \<and>
         rate_difference opp = \<bar>rate (funding_data ! i) - rate (funding_data ! j)\<bar> \<and>
         0.0001 < rate_difference opp))
   \<and> (\<bar>rate a - rate b\<bar> \<le> 0.0001 \<longrightarrow> pair_opportunity fs sl symb a b = [])
   \<and> (length (records_of s funding_data) \<le> 1 \<longrightarrow>
        filter (\<lambda>x. op_symbol x = s) (find_arbitrage_opportunities fs sl funding_data) = [])"
proof (intro conjI impI)
  assume "opp \<in> set (find_arbitrage_opportunities fs sl funding_data)"
  then obtain i j where ij: "i < j" "j < length funding_data"
    "symbol (funding_data ! i) = symbol (funding_data ! j)"
    "opp \<in> set (pair_opportunity fs sl (symbol (funding_data ! i)) (funding_data ! i) (funding_data ! j))"
    by (rule found_from_pair)
  let ?a = "funding_data ! i" and ?b = "funding_data ! j"
  from ij(4) have opp: "opp = calculate_arbitrage_profit fs sl (fst (assign_legs ?a ?b))
      (snd (assign_legs ?a ?b)) (symbol ?a)"
    and big: "0.0001 < rate (fst (assign_legs ?a ?b)) - rate (snd (assign_legs ?a ?b))"
    by (simp_all add: set_pair_opportunity)
  have sy: "op_symbol opp = symbol ?a"
    by (subst opp) (rule op_symbol_calculate)
  have d: "rate_difference opp = \<bar>rate ?a - rate ?b\<bar>"
    by (subst opp) (simp add: rate_difference_calculate assign_legs_difference)
  have "i < j \<and> j < length funding_data \<and>
         symbol ?a = op_symbol opp \<and> symbol ?b = op_symbol opp \<and>
         opp = calculate_arbitrage_profit fs sl (fst (assign_legs ?a ?b)) (snd (assign_legs ?a ?b)) (op_symbol opp) \<and>
         rate_difference opp = \<bar>rate ?a - rate ?b\<bar> \<and> 0.0001 < rate_difference opp"
    using ij(1,2,3) sy d big opp by (simp add: assign_legs_difference)
  then show "\<exists>i j. i < j \<and> j < length funding_data \<and>
         symbol (funding_data ! i) = op_symbol opp \<and> symbol (funding_data ! j) = op_symbol opp \<and>
         opp = calculate_arbitrage_profit fs sl
                 (fst (assign_legs (funding_data ! i) (funding_data ! j)))
                 (snd (assign_legs (funding_data ! i) (funding_data ! j))) (op_symbol opp) \<and>
         rate_difference opp = \<bar>rate (funding_data ! i) - rate (funding_data ! j)\<bar> \<and>
         0.0001 < rate_difference opp"
    by blast
next
  assume "\<bar>rate a - rate b\<bar> \<le> 0.0001"
  then show "pair_opportunity fs sl symb a b = []" by (rule pair_opportunity_noise)
next
  assume short: "length (records_of s funding_data) \<le> 1"
  have "op_symbol x \<noteq> s" if x: "x \<in> set (find_arbitrage_opportunities fs sl funding_data)" for x
  proof
    assume eq: "op_symbol x = s"
    from x obtain a b where ab: "precedes_in funding_data a b" "symbol a = symbol b"
        "x \<in> set (pair_opportunity fs sl (symbol a) a b)"
      unfolding set_find_arbitrage_opportunities set_collected_opportunities by blast
    from ab(3) have "op_symbol x = symbol a"
      by (simp add: set_pair_opportunity op_symbol_calculate)
    with eq ab(1,2) have "precedes_in (records_of s funding_data) a b"
      by (simp add: records_of_def precedes_in_filter)
    then obtain i j where "i < j" "j < length (records_of s funding_data)"
      unfolding precedes_in_def by blast
    with short show False by simp
  qed
  then show "filter (\<lambda>x. op_symbol x = s) (find_arbitrage_opportunities fs sl funding_data) = []"
    by (simp add: filter_empty_conv)
qed

theorem find_only_real_spreads_witness:
  "(example_opportunity \<in> set (find_arbitrage_opportunities example_fees example_slippage example_data) \<and>
      (\<exists>i j. i < j \<and> j < length example_data \<and>
         symbol (example_data ! i) = op_symbol example_opportunity \<and>
         symbol (example_data ! j) = op_symbol example_opportunity \<and>
         example_opportunity = calculate_arbitrage_profit example_fees example_slippage
                 (fst (assign_legs (example_data ! i) (example_data ! j)))
                 (snd (assign_legs (example_data ! i) (example_data ! j))) (op_symbol example_opportunity) \<and>
         rate_difference example_opportunity = \<bar>rate (example_data ! i) - rate (example_data ! j)\<bar> \<and>
         0.0001 < rate_difference example_opportunity))
   \<and> (\<bar>rate (example_record ''ExchangeA'' ''BTC'' 0.0003) - rate (example_record ''ExchangeB'' ''BTC'' 0.0002)\<bar> \<le> 0.0001 \<and>
        pair_opportunity example_fees example_slippage ''BTC''
          (example_record ''ExchangeA'' ''BTC'' 0.0003) (example_record ''ExchangeB'' ''BTC'' 0.0002) = [])
   \<and> (length (records_of ''ETH'' example_data) \<le> 1 \<and>
        filter (\<lambda>x. op_symbol x = ''ETH'')
          (find_arbitrage_opportunities example_fees example_slippage example_data) = [])"
proof -
  have h1: "example_opportunity \<in> set (find_arbitrage_opportunities example_fees example_slippage example_data)"
    by (simp add: example_found)
  have h2: "\<bar>rate (example_record ''ExchangeA'' ''BTC'' 0.0003) - rate (example_record ''ExchangeB'' ''BTC'' 0.0002)\<bar> \<le> 0.0001"
    by (simp add: example_record_def)
  have h3: "length (records_of ''ETH'' example_data) \<le> 1"
    by (simp add: records_of_def example_data_def example_record_def)
  from h1 h2 h3
    find_only_real_spreads [where opp = example_opportunity and fs = example_fees
      and sl = example_slippage and funding_data = example_data
      and a = "example_record ''ExchangeA'' ''BTC'' 0.0003"
      and b = "example_record ''ExchangeB'' ''BTC'' 0.0002"
      and symb = "''BTC''" and s = "''ETH''"]
  show ?thesis by blast
qed

text \<open>
  C4. No opportunity with net_profit_8h \<le> 0 is returned: every returned opportunity has
  net_profit_8h > 0, and for a pair of same-symbol records that passes the 0.0001 test the
  opportunity built from it is in the result exactly when its net_profit_8h is positive.
\<close>

theorem find_net_profit_positive:
  "(opp \<in> set (find_arbitrage_opportunities fs sl funding_data) \<longrightarrow> 0 < net_profit_8h opp)
   \<and> (i < j \<and> j < length funding_data \<and> symbol (funding_data ! i) = symbol (funding_data ! j) \<and>
        0.0001 < rate (fst (assign_legs (funding_data ! i) (funding_data ! j))) -
                 rate (snd (assign_legs (funding_data ! i) (funding_data ! j))) \<longrightarrow>
        (calculate_arbitrage_profit fs sl
            (fst (assign_legs (funding_data ! i) (funding_data ! j)))
            (snd (assign_legs (funding_data ! i) (funding_data ! j))) (symbol (funding_data ! i))
           \<in> set (find_arbitrage_opportunities fs sl funding_data))
        = (0 < net_profit_8h (calculate_arbitrage_profit fs sl
            (fst (assign_legs (funding_data ! i) (funding_data ! j)))
            (snd (assign_legs (funding_data ! i) (funding_data ! j))) (symbol (funding_data ! i)))))"
proof -
  have pos: "0 < net_profit_8h x" if "x \<in> set (find_arbitrage_opportunities fs sl funding_data)" for x
  proof -
    from that obtain i j where
      "x \<in> set (pair_opportunity fs sl (symbol (funding_data ! i)) (funding_data ! i) (funding_data ! j))"
      by (rule found_from_pair)
    then show ?thesis unfolding set_pair_opportunity by blast
  qed
  let ?a = "funding_data ! i" and ?b = "funding_data ! j"
  let ?c = "calculate_arbitrage_profit fs sl (fst (assign_legs ?a ?b)) (snd (assign_legs ?a ?b)) (symbol ?a)"
  have incl: "?c \<in> set (find_arbitrage_opportunities fs sl funding_data)"
    if "i < j" "j < length funding_data" "symbol ?a = symbol ?b"
      "0.0001 < rate (fst (assign_legs ?a ?b)) - rate (snd (assign_legs ?a ?b))"
      "0 < net_profit_8h ?c"
  proof -
    from that(4,5) have "?c \<in> set (pair_opportunity fs sl (symbol ?a) ?a ?b)"
      by (simp add: set_pair_opportunity)
    with that(1,2,3) show ?thesis by (rule pair_found)
  qed
  from pos incl show ?thesis by blast
qed

theorem find_net_profit_positive_witness:
  "(example_opportunity \<in> set (find_arbitrage_opportunities example_fees example_slippage example_data) \<and>
      0 < net_profit_8h example_opportunity)
   \<and> ((0::nat) < 2 \<and> 2 < length example_data \<and> symbol (example_data ! 0) = symbol (example_data ! 2) \<and>
        0.0001 < rate (fst (assign_legs (example_data ! 0) (example_data ! 2))) -
                 rate (snd (assign_legs (example_data ! 0) (example_data ! 2))) \<and>
        (calculate_arbitrage_profit example_fees example_slippage
            (fst (assign_legs (example_data ! 0) (example_data ! 2)))
            (snd (assign_legs (example_data ! 0) (example_data ! 2))) (symbol (example_data ! 0))
           \<in> set (find_arbitrage_opportunities example_fees example_slippage example_data))
        = (0 < net_profit_8h (calculate_arbitrage_profit example_fees example_slippage
            (fst (assign_legs (example_data ! 0) (example_data ! 2)))
            (snd (assign_legs (example_data ! 0) (example_data ! 2))) (symbol (example_data ! 0)))))"
proof -
  have h1: "example_opportunity \<in> set (find_arbitrage_opportunities example_fees example_slippage example_data)"
    by (simp add: example_found)
  have h2: "(0::nat) < 2 \<and> 2 < length example_data \<and> symbol (example_data ! 0) = symbol (example_data ! 2) \<and>
        0.0001 < rate (fst (assign_legs (example_data ! 0) (example_data ! 2))) -
                 rate (snd (assign_legs (example_data ! 0) (example_data ! 2)))"
    by (simp add: example_data_def example_record_def assign_legs_def)
  from h1 h2 find_net_profit_positive [of example_opportunity example_fees example_slippage example_data 0 2]
  show ?thesis by blast
qed

text \<open>
  C10. The two legs need not come from different exchanges: whatever the tables, there are
  two records of the same symbol and the same exchange for which an opportunity with
  long_exchange = short_exchange is returned.
\<close>

theorem same_exchange_opportunity:
  "\<exists>a b opp. exchange a = exchange b \<and> symbol a = symbol b \<and>
     opp \<in> set (find_arbitrage_opportunities fs sl [a, b]) \<and>
     long_exchange opp = short_exchange opp"
proof -
  define fees where "fees = dict_get fs ''Binance'' 0.1 / 100 + dict_get fs ''Binance'' 0.1 / 100 +
    2 * (dict_get sl ''BTC'' 0.05 / 100) + 0.002"
  define a where "a = example_record ''Binance'' ''BTC'' (\<bar>fees\<bar> + 1)"
  define b where "b = example_record ''Binance'' ''BTC'' 0"
  define opp where "opp = calculate_arbitrage_profit fs sl a b ''BTC''"
  have small: "(0.0001::real) < 1" by simp
  have big: "0 < \<bar>fees\<bar> + 1" "0.0001 < \<bar>fees\<bar> + 1" "0 < \<bar>fees\<bar> + 1 - fees"
    using small abs_ge_zero [of fees] abs_ge_self [of fees] by linarith+
  have rates: "rate a = \<bar>fees\<bar> + 1" "rate b = 0"
    by (simp_all add: a_def b_def example_record_def)
  have legs: "assign_legs a b = (a, b)"
    using big(1) by (simp add: assign_legs_def rates)
  have net: "net_profit_8h opp = \<bar>fees\<bar> + 1 - fees"
    by (simp add: opp_def calculate_arbitrage_profit_def Let_def a_def b_def example_record_def fees_def)
  have sa: "symbol a = ''BTC''" by (simp add: a_def example_record_def)
  have "opp \<in> set (pair_opportunity fs sl (symbol a) a b)"
    unfolding set_pair_opportunity legs fst_conv snd_conv rates sa net
    using big by (simp add: opp_def)
  then have "opp \<in> set (pair_opportunity fs sl (symbol ([a, b] ! 0)) ([a, b] ! 0) ([a, b] ! 1))"
    by simp
  then have "opp \<in> set (find_arbitrage_opportunities fs sl [a, b])"
    by (intro pair_found [of 0 1]) (simp_all add: a_def b_def example_record_def)
  moreover have "long_exchange opp = short_exchange opp"
    by (simp add: opp_def calculate_arbitrage_profit_def Let_def a_def b_def example_record_def)
  moreover have "exchange a = exchange b \<and> symbol a = symbol b"
    by (simp add: a_def b_def example_record_def)
  ultimately show ?thesis by blast
qed

text \<open>
  With a fee entry of -0.5 percent for the long exchange and defaults elsewhere,
  estimated_fees is -0.005 + 0.001 + 0.001 + 0.002 = -0.001.
\<close>

theorem estimated_fees_below_buffer_counterexample:
  "\<not> 0.002 \<le> estimated_fees (calculate_arbitrage_profit [''ExchangeA'' \<mapsto> - 0.5] Map.empty
      (example_record ''ExchangeA'' ''BTC'' 0.0010) (example_record ''ExchangeB'' ''BTC'' 0.0002) ''BTC'')"
  by (simp add: calculate_arbitrage_profit_def dict_get_def Let_def example_record_def)

text \<open>
  C9 (amended). An exchange absent from the fee table is charged 0.1 percent, that is 0.001,
  per leg, and a symbol absent from the slippage table gets 0.05 percent, that is 0.0005, so
  estimated_fees is defined for every pair. It is at least 0.002 when the fee entries of the
  two exchanges and the slippage entry of the symbol, where the tables have them, are not
  negative. Without that proviso the bound fails: a negative fee entry can bring
  estimated_fees below 0.002.
\<close>

theorem estimated_fees_defaults:
  "estimated_fees (calculate_arbitrage_profit fs sl long_r short_r symb) =
     (case fs (exchange long_r) of None \<Rightarrow> 0.001 | Some f \<Rightarrow> f / 100) +
     (case fs (exchange short_r) of None \<Rightarrow> 0.001 | Some f \<Rightarrow> f / 100) +
     2 * (case sl symb of None \<Rightarrow> 0.0005 | Some p \<Rightarrow> p / 100) + 0.002
   \<and> (0 \<le> dict_get fs (exchange long_r) 0.1 \<and> 0 \<le> dict_get fs (exchange short_r) 0.1 \<and>
        0 \<le> dict_get sl symb 0.05 \<longrightarrow>
        0.002 \<le> estimated_fees (calculate_arbitrage_profit fs sl long_r short_r symb))"
proof (intro conjI impI)
  show "estimated_fees (calculate_arbitrage_profit fs sl long_r short_r symb) =
     (case fs (exchange long_r) of None \<Rightarrow> 0.001 | Some f \<Rightarrow> f / 100) +
     (case fs (exchange short_r) of None \<Rightarrow> 0.001 | Some f \<Rightarrow> f / 100) +
     2 * (case sl symb of None \<Rightarrow> 0.0005 | Some p \<Rightarrow> p / 100) + 0.002"
    by (simp add: calculate_arbitrage_profit_def dict_get_def Let_def split: option.splits)
next
  assume "0 \<le> dict_get fs (exchange long_r) 0.1 \<and> 0 \<le> dict_get fs (exchange short_r) 0.1 \<and>
        0 \<le> dict_get sl symb 0.05"
  then show "0.002 \<le> estimated_fees (calculate_arbitrage_profit fs sl long_r short_r symb)"
    by (simp add: calculate_arbitrage_profit_def Let_def)
qed

theorem estimated_fees_defaults_witness:
  "0 \<le> dict_get example_fees (exchange (example_record ''ExchangeA'' ''BTC'' 0.0010)) 0.1 \<and>
   0 \<le> dict_get example_fees (exchange (example_record ''Unlisted'' ''DOGE'' 0.0002)) 0.1 \<and>
   0 \<le> dict_get example_slippage ''DOGE'' 0.05 \<and>
   0.002 \<le> estimated_fees (calculate_arbitrage_profit example_fees example_slippage
      (example_record ''ExchangeA'' ''BTC'' 0.0010) (example_record ''Unlisted'' ''DOGE'' 0.0002) ''DOGE'') \<and>
   estimated_fees (calculate_arbitrage_profit example_fees example_slippage
      (example_record ''ExchangeA'' ''BTC'' 0.0010) (example_record ''Unlisted'' ''DOGE'' 0.0002) ''DOGE'')
     = 0.0008 + 0.001 + 2 * 0.0005 + 0.002"
proof -
  have h: "0 \<le> dict_get example_fees (exchange (example_record ''ExchangeA'' ''BTC'' 0.0010)) 0.1 \<and>
      0 \<le> dict_get example_fees (exchange (example_record ''Unlisted'' ''DOGE'' 0.0002)) 0.1 \<and>
      0 \<le> dict_get example_slippage ''DOGE'' 0.05"
    by (simp add: dict_get_def example_fees_def example_slippage_def example_record_def)
  from h estimated_fees_defaults [of example_fees example_slippage
      "example_record ''ExchangeA'' ''BTC'' 0.0010" "example_record ''Unlisted'' ''DOGE'' 0.0002" "''DOGE''"]
  show ?thesis
    by (simp add: example_fees_def example_slippage_def example_record_def)
qed

section \<open>Determinism and order stability\<close>

lemma upt_Suc_shift: "[Suc i..<Suc n] = map Suc [i..<n]"
  by (simp add: map_Suc_upt)

lemma index_loops_Cons:
  "concat (map (\<lambda>i. concat (map (\<lambda>j. f ((x # xs) ! i) ((x # xs) ! j)) [i + 1..<length (x # xs)]))
      [0..<length (x # xs)]) =
   concat (map (f x) xs) @
   concat (map (\<lambda>i. concat (map (\<lambda>j. f (xs ! i) (xs ! j)) [i + 1..<length xs])) [0..<length xs])"
proof -
  let ?n = "length xs"
  have "[0..<Suc ?n] = 0 # [Suc 0..<Suc ?n]"
    by (rule upt_conv_Cons) simp
  then have outer: "[0..<length (x # xs)] = 0 # map Suc [0..<?n]"
    by (simp only: map_Suc_upt list.size(4) One_nat_def add_Suc_right add_0_right)
  have first: "concat (map (\<lambda>j. f ((x # xs) ! 0) ((x # xs) ! j)) [0 + 1..<length (x # xs)]) =
      concat (map (f x) xs)"
  proof -
    have "map (\<lambda>j. f ((x # xs) ! 0) ((x # xs) ! j)) [0 + 1..<length (x # xs)] =
        map (\<lambda>j. f x (xs ! j)) [0..<?n]"
      by (simp add: upt_Suc_shift comp_def del: upt_Suc)
    also have "\<dots> = map (f x) (map (nth xs) [0..<?n])" by (simp add: comp_def)
    also have "\<dots> = map (f x) xs" by (simp only: map_nth)
    finally show ?thesis by simp
  qed
  have rest: "map (\<lambda>i. concat (map (\<lambda>j. f ((x # xs) ! i) ((x # xs) ! j)) [i + 1..<length (x # xs)]))
        (map Suc [0..<?n]) =
      map (\<lambda>i. concat (map (\<lambda>j. f (xs ! i) (xs ! j)) [i + 1..<?n])) [0..<?n]"
    by (simp add: upt_Suc_shift comp_def del: upt_Suc)
  show ?thesis
    unfolding outer list.map concat.simps first rest ..
qed

lemma index_loops_ordered_pairs:
  "concat (map (\<lambda>i. concat (map (\<lambda>j. f (xs ! i) (xs ! j)) [i + 1..<length xs])) [0..<length xs]) =
   concat (map (\<lambda>(a, b). f a b) (ordered_pairs xs))"
proof (induction xs)
  case Nil
  show ?case by simp
next
  case (Cons x xs)
  show ?case
    unfolding index_loops_Cons Cons.IH by (simp add: comp_def)
qed

lemma ordered_pairs_short: "length xs < 2 \<Longrightarrow> ordered_pairs xs = []"
  by (cases xs) auto

lemma group_opportunities_ordered_pairs:
  "group_opportunities fs sl s rates =
     concat (map (\<lambda>(a, b). pair_opportunity fs sl s a b) (ordered_pairs rates))"
proof (cases "length rates < 2")
  case True
  then show ?thesis by (simp add: group_opportunities_def ordered_pairs_short)
next
  case False
  then show ?thesis
    by (simp only: group_opportunities_def if_False index_loops_ordered_pairs)
qed

lemma collected_eq_enumerated:
  "collected_opportunities fs sl funding_data = enumerated_opportunities_spec fs sl funding_data"
  by (simp add: collected_opportunities_def enumerated_opportunities_spec_def symbol_groups_eq
      group_opportunities_ordered_pairs comp_def)

text \<open>
  C6. The result is a function of the two tables and the record list alone, and it is
  order-stable: it is the stable descending sort of the opportunities enumerated symbol by
  symbol in order of first occurrence and, within a symbol, by pairs of indices \<open>i < j\<close>;
  opportunities of equal net_profit_8h keep that enumeration order, and nothing is lost or
  duplicated by the sort.
\<close>

theorem find_deterministic_stable:
  "find_arbitrage_opportunities fs sl funding_data =
     sorted_reverse net_profit_8h (enumerated_opportunities_spec fs sl funding_data)
   \<and> filter (\<lambda>x. net_profit_8h x = k) (find_arbitrage_opportunities fs sl funding_data) =
       filter (\<lambda>x. net_profit_8h x = k) (enumerated_opportunities_spec fs sl funding_data)
   \<and> mset (find_arbitrage_opportunities fs sl funding_data) =
       mset (enumerated_opportunities_spec fs sl funding_data)"
proof -
  let ?xs = "enumerated_opportunities_spec fs sl funding_data"
  have eq: "find_arbitrage_opportunities fs sl funding_data = sort_key (\<lambda>x. - net_profit_8h x) ?xs"
    by (simp add: find_arbitrage_opportunities_def sorted_reverse_def collected_eq_enumerated)
  have "filter (\<lambda>x. - net_profit_8h x = - k) (sort_key (\<lambda>x. - net_profit_8h x) ?xs) =
      filter (\<lambda>x. - net_profit_8h x = - k) ?xs"
    by (rule sort_key_stable)
  then have stable: "filter (\<lambda>x. net_profit_8h x = k) (sort_key (\<lambda>x. - net_profit_8h x) ?xs) =
      filter (\<lambda>x. net_profit_8h x = k) ?xs"
    by simp
  show ?thesis
    unfolding eq using stable by (simp add: sorted_reverse_def)
qed

text \<open>
  A tie: the ETH pair and the BTC pair both have net profit 0.0020 (ETH takes the default
  slippage), and ETH occurs first in the input, so its opportunity comes first.
\<close>

lemma stable_tie_example:
  "map op_symbol (find_arbitrage_opportunities example_fees example_slippage
     [example_record ''ExchangeA'' ''ETH'' 0.0068, example_record ''ExchangeB'' ''BTC'' 0.0002,
      example_record ''ExchangeA'' ''BTC'' 0.0060, example_record ''ExchangeB'' ''ETH'' 0.0002]) =
   [''ETH'', ''BTC'']
   \<and> map net_profit_8h (find_arbitrage_opportunities example_fees example_slippage
     [example_record ''ExchangeA'' ''ETH'' 0.0068, example_record ''ExchangeB'' ''BTC'' 0.0002,
      example_record ''ExchangeA'' ''BTC'' 0.0060, example_record ''ExchangeB'' ''ETH'' 0.0002]) =
   [0.0020, 0.0020]"
  by (simp add: find_defs example_defs)

section \<open>Error isolation in collection\<close>

lemma symbol_loop_acc:
  "symbol_loop body symbols acc w =
     (acc @ fst (symbol_loop body symbols [] w), snd (symbol_loop body symbols [] w))"
proof (induction symbols arbitrary: acc w)
  case Nil
  show ?case by simp
next
  case (Cons s rest)
  obtain r w' where step: "body s w = (r, w')" by (cases "body s w")
  show ?case
  proof (cases r)
    case (Inl err)
    with step Cons.IH [of acc w'] show ?thesis by simp
  next
    case (Inr x)
    show ?thesis
    proof (cases x)
      case None
      with step Inr Cons.IH [of acc w'] show ?thesis by simp
    next
      case (Some rec)
      with step Inr Cons.IH [of "acc @ [rec]" w'] Cons.IH [of "[rec]" w'] show ?thesis by simp
    qed
  qed
qed

lemma collect_loop_acc:
  "collect_loop exchanges symbols acc w =
     (acc @ fst (collect_loop exchanges symbols [] w), snd (collect_loop exchanges symbols [] w))"
proof (induction exchanges arbitrary: acc w)
  case Nil
  show ?case by simp
next
  case (Cons x rest)
  obtain name api where x: "x = (name, api)" by (cases x)
  obtain r w' where step: "api symbols w = (r, w')" by (cases "api symbols w")
  show ?case
  proof (cases r)
    case (Inl err)
    with x step Cons.IH [of acc w'] show ?thesis by simp
  next
    case (Inr rates)
    with x step Cons.IH [of "acc @ rates" w'] Cons.IH [of rates w'] show ?thesis by simp
  qed
qed

lemma binance_returns: "\<exists>recs w'. binance_get_funding_rates e symbols w = (Inr recs, w')"
  by (simp add: binance_get_funding_rates_def Let_def split: prod.splits sum.splits)

lemma bybit_returns: "\<exists>recs w'. bybit_get_funding_rates e symbols w = (Inr recs, w')"
  by (simp add: bybit_get_funding_rates_def Let_def split: prod.splits sum.splits)

lemma okx_returns: "\<exists>recs w'. okx_get_funding_rates e symbols w = (Inr recs, w')"
  by (simp add: okx_get_funding_rates_def Let_def split: prod.splits)

lemma bitget_returns: "\<exists>recs w'. bitget_get_funding_rates e symbols w = (Inr recs, w')"
  by (simp add: bitget_get_funding_rates_def Let_def split: prod.splits sum.splits)

lemma kucoin_returns: "\<exists>recs w'. kucoin_get_funding_rates e symbols w = (Inr recs, w')"
  by (simp add: kucoin_get_funding_rates_def Let_def split: prod.splits)

lemma symbol_loop_Cons:
  "\<exists>r w1. length r \<le> 1 \<and>
     symbol_loop body (s # rest) [] w =
       (r @ fst (symbol_loop body rest [] w1), snd (symbol_loop body rest [] w1))"
proof -
  obtain x w' where step: "body s w = (x, w')" by (cases "body s w")
  show ?thesis
  proof (cases x)
    case (Inl err)
    with step have "symbol_loop body (s # rest) [] w =
        ([] @ fst (symbol_loop body rest [] w'), snd (symbol_loop body rest [] w'))" by simp
    then show ?thesis by (intro exI [of _ "[]"] exI [of _ w']) simp
  next
    case (Inr y)
    show ?thesis
    proof (cases y)
      case None
      with step Inr have "symbol_loop body (s # rest) [] w =
          ([] @ fst (symbol_loop body rest [] w'), snd (symbol_loop body rest [] w'))" by simp
      then show ?thesis by (intro exI [of _ "[]"] exI [of _ w']) simp
    next
      case (Some rec)
      with step Inr have "symbol_loop body (s # rest) [] w =
          ([rec] @ fst (symbol_loop body rest [] w'), snd (symbol_loop body rest [] w'))"
        using symbol_loop_acc [of body rest "[rec]" w'] by simp
      then show ?thesis by (intro exI [of _ "[rec]"] exI [of _ w']) simp
    qed
  qed
qed

text \<open>
  What holds of collection. Each of the five adapters returns a list to its caller and never
  raises, whatever the transport, the status codes and the payloads are.
  \<^verbatim>\<open>collect_all_funding_rates\<close> calls the enabled adapters in turn, in the order
  Binance, Bybit, OKX, Bitget, KuCoin: the records of an adapter that returns are followed by
  those of the remaining adapters, and an adapter that raises is skipped. In the OKX and
  KuCoin adapters the same holds symbol by symbol: whatever happens for the first symbol, the
  records of the remaining symbols follow.
\<close>

lemma collection_isolation:
  "(\<exists>recs w'. binance_get_funding_rates e symbols w = (Inr recs, w'))
   \<and> (\<exists>recs w'. bybit_get_funding_rates e symbols w = (Inr recs, w'))
   \<and> (\<exists>recs w'. okx_get_funding_rates e symbols w = (Inr recs, w'))
   \<and> (\<exists>recs w'. bitget_get_funding_rates e symbols w = (Inr recs, w'))
   \<and> (\<exists>recs w'. kucoin_get_funding_rates e symbols w = (Inr recs, w'))
   \<and> map fst (collector_exchanges e enabled) =
        filter (\<lambda>k. k \<in> set enabled) [''binance'', ''bybit'', ''okx'', ''bitget'', ''kucoin'']
   \<and> collect_all_funding_rates [] symbols w = ([], w)
   \<and> (api symbols w = (Inr rates, w1) \<longrightarrow>
        collect_all_funding_rates ((name, api) # rest) symbols w =
          (rates @ fst (collect_all_funding_rates rest symbols w1),
           snd (collect_all_funding_rates rest symbols w1)))
   \<and> (api' symbols w = (Inl err, w2) \<longrightarrow>
        collect_all_funding_rates ((name', api') # rest') symbols w =
          collect_all_funding_rates rest' symbols w2)
   \<and> (\<exists>r wa recs wb. length r \<le> 1 \<and> okx_get_funding_rates e others wa = (Inr recs, wb) \<and>
          okx_get_funding_rates e (s # others) w = (Inr (r @ recs), wb))
   \<and> (\<exists>r wa recs wb. length r \<le> 1 \<and> kucoin_get_funding_rates e others wa = (Inr recs, wb) \<and>
          kucoin_get_funding_rates e (s # others) w = (Inr (r @ recs), wb))"
proof -
  have ok: "collect_all_funding_rates ((name, api) # rest) symbols w =
          (rates @ fst (collect_all_funding_rates rest symbols w1),
           snd (collect_all_funding_rates rest symbols w1))"
    if "api symbols w = (Inr rates, w1)"
    using that collect_loop_acc [of rest symbols rates w1]
    by (simp add: collect_all_funding_rates_def)
  have bad: "collect_all_funding_rates ((name', api') # rest') symbols w =
          collect_all_funding_rates rest' symbols w2"
    if "api' symbols w = (Inl err, w2)"
    using that by (simp add: collect_all_funding_rates_def)
  have okx: "\<exists>r wa recs wb. length r \<le> 1 \<and> okx_get_funding_rates e others wa = (Inr recs, wb) \<and>
          okx_get_funding_rates e (s # others) w = (Inr (r @ recs), wb)"
  proof -
    obtain r wa where r: "length r \<le> 1"
      "symbol_loop (okx_symbol_record e) (s # others) [] w =
         (r @ fst (symbol_loop (okx_symbol_record e) others [] wa),
          snd (symbol_loop (okx_symbol_record e) others [] wa))"
      using symbol_loop_Cons [of "okx_symbol_record e" s others w] by blast
    let ?rest = "symbol_loop (okx_symbol_record e) others [] wa"
    have "okx_get_funding_rates e others wa = (Inr (fst ?rest), snd ?rest)"
      by (simp add: okx_get_funding_rates_def case_prod_beta)
    moreover have "okx_get_funding_rates e (s # others) w = (Inr (r @ fst ?rest), snd ?rest)"
      unfolding okx_get_funding_rates_def r(2) by simp
    ultimately show ?thesis using r(1) by blast
  qed
  have kucoin: "\<exists>r wa recs wb. length r \<le> 1 \<and> kucoin_get_funding_rates e others wa = (Inr recs, wb) \<and>
          kucoin_get_funding_rates e (s # others) w = (Inr (r @ recs), wb)"
  proof -
    obtain r wa where r: "length r \<le> 1"
      "symbol_loop (kucoin_symbol_record e) (s # others) [] w =
         (r @ fst (symbol_loop (kucoin_symbol_record e) others [] wa),
          snd (symbol_loop (kucoin_symbol_record e) others [] wa))"
      using symbol_loop_Cons [of "kucoin_symbol_record e" s others w] by blast
    let ?rest = "symbol_loop (kucoin_symbol_record e) others [] wa"
    have "kucoin_get_funding_rates e others wa = (Inr (fst ?rest), snd ?rest)"
      by (simp add: kucoin_get_funding_rates_def case_prod_beta)
    moreover have "kucoin_get_funding_rates e (s # others) w = (Inr (r @ fst ?rest), snd ?rest)"
      unfolding kucoin_get_funding_rates_def r(2) by simp
    ultimately show ?thesis using r(1) by blast
  qed
  have empty: "collect_all_funding_rates [] symbols w = ([], w)"
    by (simp add: collect_all_funding_rates_def)
  have enabled: "map fst (collector_exchanges e enabled) =
        filter (\<lambda>k. k \<in> set enabled) [''binance'', ''bybit'', ''okx'', ''bitget'', ''kucoin'']"
    by (simp add: collector_exchanges_def)
  show ?thesis
    using binance_returns [of e symbols w] bybit_returns [of e symbols w] okx_returns [of e symbols w]
      bitget_returns [of e symbols w] kucoin_returns [of e symbols w] enabled empty ok bad okx kucoin
    by (intro conjI impI)
qed

lemma collection_isolation_example:
  "(\<lambda>symbols w. (Inr [example_record ''ExchangeA'' ''BTC'' 0.0060], w)) [''BTC''] example_world =
      (Inr [example_record ''ExchangeA'' ''BTC'' 0.0060], example_world)
   \<and> collect_all_funding_rates
        [(''steady'', \<lambda>symbols w. (Inr [example_record ''ExchangeA'' ''BTC'' 0.0060], w)),
         (''failing'', \<lambda>symbols w. (Inl OSError, w)),
         (''other'', \<lambda>symbols w. (Inr [example_record ''ExchangeB'' ''BTC'' 0.0002], w))]
        [''BTC''] example_world =
      ([example_record ''ExchangeA'' ''BTC'' 0.0060, example_record ''ExchangeB'' ''BTC'' 0.0002],
       example_world)
   \<and> (\<lambda>symbols w. (Inl OSError, w)) [''BTC''] example_world = (Inl OSError, example_world)
   \<and> collect_all_funding_rates
        [(''failing'', \<lambda>symbols w. (Inl OSError, w)),
         (''other'', \<lambda>symbols w. (Inr [example_record ''ExchangeB'' ''BTC'' 0.0002], w))]
        [''BTC''] example_world =
      ([example_record ''ExchangeB'' ''BTC'' 0.0002], example_world)"
  using collection_isolation [where symbols = "[''BTC'']" and w = example_world
      and api = "\<lambda>symbols w. (Inr [example_record ''ExchangeA'' ''BTC'' 0.0060], w)"
      and rates = "[example_record ''ExchangeA'' ''BTC'' 0.0060]" and ?w1.0 = example_world
      and name = "''steady''"
      and rest = "[(''failing'', \<lambda>symbols w. (Inl OSError, w)),
         (''other'', \<lambda>symbols w. (Inr [example_record ''ExchangeB'' ''BTC'' 0.0002], w))]"
      and api' = "\<lambda>symbols w. (Inl OSError, w)" and err = OSError and ?w2.0 = example_world
      and name' = "''failing''"
      and rest' = "[(''other'', \<lambda>symbols w. (Inr [example_record ''ExchangeB'' ''BTC'' 0.0002], w))]"]
  by (simp add: collect_all_funding_rates_def)

text \<open>
  C7. A failure confined to one symbol's request must never abort the collection of the
  remaining symbols. The Bitget adapter breaks this: its \<^verbatim>\<open>try\<close> encloses the whole
  loop, so when the ticker of BTC is malformed the loop ends, ETH is never requested and the
  adapter returns no record at all, although asked for ETH alone it returns the ETH record.
  The OKX adapter, whose \<^verbatim>\<open>try\<close> is inside the loop, skips BTC on the same kind of
  payload and goes on to return the ETH record.
\<close>

theorem bitget_aborts_remaining_symbols:
  "bitget_get_funding_rates malformed_ticker_env [''BTC'', ''ETH''] example_world =
     (Inr [], \<lparr> requests = 2, clock_reads = 0 \<rparr>)
   \<and> bitget_get_funding_rates malformed_ticker_env [''ETH''] example_world =
     (Inr [\<lparr> exchange = ''Bitget'', symbol = ''ETH'', rate = 0.01, timestamp = 0,
             next_funding_time = None, mark_price = None \<rparr>],
      \<lparr> requests = 2, clock_reads = 1 \<rparr>)
   \<and> okx_get_funding_rates malformed_ticker_env [''BTC'', ''ETH''] example_world =
     (Inr [\<lparr> exchange = ''OKX'', symbol = ''ETH'', rate = 0.01, timestamp = 0,
             next_funding_time = None, mark_price = None \<rparr>],
      \<lparr> requests = 2, clock_reads = 1 \<rparr>)"
proof (intro conjI)
  show "bitget_get_funding_rates malformed_ticker_env [''BTC'', ''ETH''] example_world =
     (Inr [], \<lparr> requests = 2, clock_reads = 0 \<rparr>)"
    by (simp add: bitget_get_funding_rates_def bitget_item_def bitget_symbol_mapping_def
        make_request_def datetime_now_def and_then_def malformed_ticker_env_def example_env_def
        example_world_def)
  show "bitget_get_funding_rates malformed_ticker_env [''ETH''] example_world =
     (Inr [\<lparr> exchange = ''Bitget'', symbol = ''ETH'', rate = 0.01, timestamp = 0,
             next_funding_time = None, mark_price = None \<rparr>],
      \<lparr> requests = 2, clock_reads = 1 \<rparr>)"
    by (simp add: bitget_get_funding_rates_def bitget_item_def bitget_symbol_mapping_def
        make_request_def datetime_now_def and_then_def malformed_ticker_env_def example_env_def
        example_world_def)
  show "okx_get_funding_rates malformed_ticker_env [''BTC'', ''ETH''] example_world =
     (Inr [\<lparr> exchange = ''OKX'', symbol = ''ETH'', rate = 0.01, timestamp = 0,
             next_funding_time = None, mark_price = None \<rparr>],
      \<lparr> requests = 2, clock_reads = 1 \<rparr>)"
    by (simp add: okx_get_funding_rates_def okx_symbol_record_def okx_symbol_mapping_def
        make_request_def datetime_now_def next_funding_time_of_def and_then_def
        malformed_ticker_env_def example_env_def example_world_def)
qed

section \<open>Saving the profitable set\<close>

lemma save_entries_eq:
  "save_entries self e opps w =
     (map (\<lambda>i. JObj (opportunity_fields self e (now e (clock_reads w + i)) (opps ! i)))
        [0..<length opps],
      w\<lparr>clock_reads := clock_reads w + length opps\<rparr>)"
proof (induction opps arbitrary: w)
  case Nil
  show ?case by simp
next
  case (Cons opp rest)
  let ?w1 = "w\<lparr>clock_reads := clock_reads w + 1\<rparr>"
  have up: "[0..<length (opp # rest)] = 0 # map Suc [0..<length rest]"
    using upt_conv_Cons [of 0 "Suc (length rest)"] by (simp only: map_Suc_upt list.size(4) One_nat_def add_Suc_right add_0_right zero_less_Suc)
  show ?case
    unfolding up
    by (simp add: datetime_now_def Cons.IH comp_def)
qed

lemma find_no_records: "find_arbitrage_opportunities fs sl [] = []"
  by (simp add: find_arbitrage_opportunities_def sorted_reverse_def collected_opportunities_def
      symbol_groups_def)

lemma scan_files:
  "fst (snd (scan_opportunities self e files w)) =
     (if scan_profitable self e w \<noteq> []
      then files(scan_filename self e w \<mapsto>
             JArr (map (\<lambda>i. JObj (opportunity_fields self e
                      (now e (clock_reads (snd (scan_collected self e w)) + 1 + i))
                      (scan_profitable self e w ! i)))
                   [0..<length (scan_profitable self e w)]))
      else files)"
proof (cases "fst (scan_collected self e w) = []")
  case True
  then have "scan_profitable self e w = []"
    by (simp add: scan_profitable_def find_no_records)
  with True show ?thesis
    by (simp add: scan_opportunities_def scan_collected_def case_prod_beta)
next
  case False
  then show ?thesis
    by (simp add: scan_opportunities_def scan_collected_def scan_profitable_def scan_filename_def
        save_opportunities_def save_entries_eq datetime_now_def case_prod_beta Let_def)
qed

lemma scan_displayed:
  "scan_profitable self e w \<noteq> [] \<Longrightarrow>
     fst (scan_opportunities self e files w) = take 5 (scan_profitable self e w)"
proof -
  assume p: "scan_profitable self e w \<noteq> []"
  then have "fst (scan_collected self e w) \<noteq> []"
    by (auto simp: scan_profitable_def find_no_records)
  with p show ?thesis
    by (simp add: scan_opportunities_def scan_collected_def scan_profitable_def
        case_prod_beta Let_def)
qed

text \<open>
  C8. In every scan in which some detected opportunity meets the minimum-profit threshold,
  the whole list of such opportunities (the display shows only its first five) is written
  as a JSON array to the file \<open>data_dir/opportunities_<stamp>.json\<close>, where the stamp is
  the clock formatted with \<^verbatim>\<open>%Y%m%d_%H%M%S\<close>. Each entry is an object with the ten fields timestamp, symbol, long_exchange,
  short_exchange, long_rate, short_rate, rate_difference, net_profit_8h_pct,
  estimated_profit_usd and next_funding_time, and estimated_profit_usd is net_profit_8h times
  the position size. A scan touches no other file, and when no opportunity meets the
  threshold no file is written.
\<close>

theorem scan_saves_profitable_set:
  "(scan_profitable self e w \<noteq> [] \<longrightarrow>
      fst (snd (scan_opportunities self e files w)) =
        files(scan_filename self e w \<mapsto>
          JArr (map (\<lambda>i. JObj (opportunity_fields self e
                   (now e (clock_reads (snd (scan_collected self e w)) + 1 + i))
                   (scan_profitable self e w ! i)))
                [0..<length (scan_profitable self e w)]))
      \<and> fst (scan_opportunities self e files w) = take 5 (scan_profitable self e w))
   \<and> (scan_profitable self e' w' = [] \<longrightarrow>
        fst (snd (scan_opportunities self e' files w')) = files)
   \<and> (f \<noteq> scan_filename self e w \<longrightarrow> fst (snd (scan_opportunities self e files w)) f = files f)
   \<and> map fst (opportunity_fields self e t opp) =
        [''timestamp'', ''symbol'', ''long_exchange'', ''short_exchange'', ''long_rate'',
         ''short_rate'', ''rate_difference'', ''net_profit_8h_pct'', ''estimated_profit_usd'',
         ''next_funding_time'']
   \<and> map_of (opportunity_fields self e t opp) ''estimated_profit_usd'' =
        Some (JNum (net_profit_8h opp * position_size self))"
proof (intro conjI impI)
  assume "scan_profitable self e w \<noteq> []"
  then show "fst (snd (scan_opportunities self e files w)) =
        files(scan_filename self e w \<mapsto>
          JArr (map (\<lambda>i. JObj (opportunity_fields self e
                   (now e (clock_reads (snd (scan_collected self e w)) + 1 + i))
                   (scan_profitable self e w ! i)))
                [0..<length (scan_profitable self e w)]))"
    by (simp add: scan_files)
next
  assume "scan_profitable self e w \<noteq> []"
  then show "fst (scan_opportunities self e files w) = take 5 (scan_profitable self e w)"
    by (simp add: scan_displayed)
next
  assume "scan_profitable self e' w' = []"
  then show "fst (snd (scan_opportunities self e' files w')) = files"
    by (simp add: scan_files)
next
  assume "f \<noteq> scan_filename self e w"
  then show "fst (snd (scan_opportunities self e files w)) f = files f"
    by (simp add: scan_files)
next
  show "map fst (opportunity_fields self e t opp) =
        [''timestamp'', ''symbol'', ''long_exchange'', ''short_exchange'', ''long_rate'',
         ''short_rate'', ''rate_difference'', ''net_profit_8h_pct'', ''estimated_profit_usd'',
         ''next_funding_time'']"
    by (simp add: opportunity_fields_def)
next
  show "map_of (opportunity_fields self e t opp) ''estimated_profit_usd'' =
        Some (JNum (net_profit_8h opp * position_size self))"
    by (simp add: opportunity_fields_def)
qed

lemma example_okx:
  "okx_get_funding_rates example_env [''BTC''] example_world =
     (Inr [\<lparr> exchange = ''OKX'', symbol = ''BTC'', rate = 0.01, timestamp = 0,
             next_funding_time = None, mark_price = None \<rparr>],
      \<lparr> requests = Suc 0, clock_reads = Suc 0 \<rparr>)"
  by (simp add: okx_get_funding_rates_def okx_symbol_record_def okx_symbol_mapping_def
      make_request_def datetime_now_def next_funding_time_of_def and_then_def
      example_env_def example_world_def)

lemma example_kucoin:
  "kucoin_get_funding_rates example_env [''BTC''] \<lparr> requests = Suc 0, clock_reads = Suc 0 \<rparr> =
     (Inr [\<lparr> exchange = ''KuCoin'', symbol = ''BTC'', rate = 0.0001, timestamp = 1,
             next_funding_time = None, mark_price = None \<rparr>],
      \<lparr> requests = 3, clock_reads = 2 \<rparr>)"
  by (simp add: kucoin_get_funding_rates_def kucoin_symbol_record_def kucoin_symbol_mapping_def
      kucoin_contract_def make_request_def datetime_now_def and_then_def example_env_def)

lemma example_collected:
  "scan_collected example_bot example_env example_world =
     ([\<lparr> exchange = ''OKX'', symbol = ''BTC'', rate = 0.01, timestamp = 0,
         next_funding_time = None, mark_price = None \<rparr>,
       \<lparr> exchange = ''KuCoin'', symbol = ''BTC'', rate = 0.0001, timestamp = 1,
         next_funding_time = None, mark_price = None \<rparr>],
      \<lparr> requests = 3, clock_reads = 2 \<rparr>)"
  by (simp add: scan_collected_def collector_exchanges_def collect_all_funding_rates_def
      example_okx example_kucoin) (simp add: example_bot_def example_okx example_kucoin)

lemma example_profitable:
  "scan_profitable example_bot example_env example_world =
     [\<lparr> long_exchange = ''OKX'', short_exchange = ''KuCoin'', op_symbol = ''BTC'',
        long_rate = 0.01, short_rate = 0.0001, rate_difference = 0.0099,
        potential_profit_8h = 0.0099, estimated_fees = 0.004, net_profit_8h = 0.0059,
        op_next_funding_time = None \<rparr>]"
  unfolding scan_profitable_def example_collected fst_conv
  by (simp add: find_defs example_bot_def)

lemma example_filename:
  "scan_filename example_bot example_env example_world = ''data/opportunities_19700101_000002.json''"
  unfolding scan_filename_def example_collected snd_conv
  by (simp add: example_bot_def example_env_def)

lemma example_down_profitable:
  "scan_profitable example_bot example_env_down example_world = []"
  by (simp add: scan_profitable_def scan_collected_def collector_exchanges_def
      collect_all_funding_rates_def example_bot_def okx_get_funding_rates_def okx_symbol_record_def
      okx_symbol_mapping_def kucoin_get_funding_rates_def kucoin_symbol_record_def
      kucoin_symbol_mapping_def make_request_def example_env_down_def example_env_def
      example_world_def find_no_records)

theorem scan_saves_profitable_set_witness:
  "(scan_profitable example_bot example_env example_world \<noteq> [] \<and>
      fst (snd (scan_opportunities example_bot example_env Map.empty example_world)) =
        [''data/opportunities_19700101_000002.json'' \<mapsto> example_saved] \<and>
      fst (scan_opportunities example_bot example_env Map.empty example_world) =
        take 5 (scan_profitable example_bot example_env example_world))
   \<and> (scan_profitable example_bot example_env_down example_world = [] \<and>
        fst (snd (scan_opportunities example_bot example_env_down Map.empty example_world)) = Map.empty)
   \<and> (''data/other.json'' \<noteq> scan_filename example_bot example_env example_world \<and>
        fst (snd (scan_opportunities example_bot example_env Map.empty example_world)) ''data/other.json'' =
          None)"
proof -
  have h1: "scan_profitable example_bot example_env example_world \<noteq> []"
    by (simp add: example_profitable)
  have h2: "scan_profitable example_bot example_env_down example_world = []"
    by (rule example_down_profitable)
  have h3: "''data/other.json'' \<noteq> scan_filename example_bot example_env example_world"
    by (simp add: example_filename)
  have saved: "JArr (map (\<lambda>i. JObj (opportunity_fields example_bot example_env
                   (now example_env (clock_reads (snd (scan_collected example_bot example_env example_world)) + 1 + i))
                   (scan_profitable example_bot example_env example_world ! i)))
                [0..<length (scan_profitable example_bot example_env example_world)]) = example_saved"
    unfolding example_profitable example_collected snd_conv
    by (simp add: opportunity_fields_def example_saved_def example_env_def example_bot_def)
  from h1 h2 h3 saved
    scan_saves_profitable_set [where self = example_bot and e = example_env and w = example_world
      and files = Map.empty and e' = example_env_down and w' = example_world
      and f = "''data/other.json''"]
  show ?thesis by (simp add: example_filename)
qed

end
